theory Spec2Isabelle
  imports Main
begin

section \<open>Blueprint-to-text serializer (ue\_blueprint\_to\_text.py)\<close>

subsection \<open>Python values, exceptions and dictionaries\<close>

text \<open>
  Every call into the host object model may raise. A call is modelled by its outcome:
  \<open>Inl Exception\<close> when it raises, \<open>Inr v\<close> when it returns \<open>v\<close>. A host call that
  returns a null object on which the source then calls a method (an \<open>AttributeError\<close>)
  is the \<open>Inl\<close> outcome of that method call.
\<close>

datatype exn = Exception

type_synonym 'a attempt = "exn + 'a"

text \<open>
  Scalar property values as the source uses them: compared with \<open>None\<close>, tested for
  truth (\<open>if v:\<close>) and turned into text by \<open>str\<close>. A value that is not \<open>None\<close>
  is given by its truth value and its text, which are independent: \<open>0\<close>, \<open>False\<close> and
  an empty array are false and have a text that is not empty. Strings are byte strings.
\<close>

datatype pyval = PyNone | PyVal bool string

fun truthy :: "pyval \<Rightarrow> bool" where
  "truthy PyNone = False"
| "truthy (PyVal b s) = b"

fun py_str :: "pyval \<Rightarrow> string" where
  "py_str PyNone = ''None''"
| "py_str (PyVal b s) = s"

text \<open>A value that is a Python string: it is true exactly when it is not empty.\<close>

definition PyStr :: "string \<Rightarrow> pyval" where
  "PyStr s = PyVal (s \<noteq> []) s"

text \<open>
  \<open>str.upper\<close> is a function of the Python runtime, which maps every Unicode text: the
  serializer takes it as the parameter \<open>up\<close>. On a text of ASCII characters it is
  \<open>ascii_upper\<close>, which the examples below use, all of their texts being ASCII.
\<close>

definition ascii_upper_char :: "char \<Rightarrow> char" where
  "ascii_upper_char c =
     (case map_of (zip ''abcdefghijklmnopqrstuvwxyz'' ''ABCDEFGHIJKLMNOPQRSTUVWXYZ'') c of
        None \<Rightarrow> c
      | Some u \<Rightarrow> u)"

definition ascii_upper :: "string \<Rightarrow> string" where
  "ascii_upper s = map ascii_upper_char s"

text \<open>The substring test \<open>needle in haystack\<close>.\<close>

fun starts_with :: "string \<Rightarrow> string \<Rightarrow> bool" where
  "starts_with [] ys = True"
| "starts_with (x # xs) [] = False"
| "starts_with (x # xs) (y # ys) = (x = y \<and> starts_with xs ys)"

fun py_in :: "string \<Rightarrow> string \<Rightarrow> bool" where
  "py_in needle [] = (needle = [])"
| "py_in needle (y # ys) = (starts_with needle (y # ys) \<or> py_in needle ys)"

text \<open>
  The output document. A Python \<open>dict\<close> keeps its keys in insertion order, which is the
  order \<open>json.dumps\<close> prints: an association list, where assigning to a key that is
  present replaces its value in place and assigning to a new key appends it.
\<close>

datatype json = JStr string | JBool bool | JList "json list" | JObj "(string \<times> json) list"

type_synonym doc = "(string \<times> json) list"

fun dict_set :: "doc \<Rightarrow> string \<Rightarrow> json \<Rightarrow> doc" where
  "dict_set [] k v = [(k, v)]"
| "dict_set ((k', v') # d) k v =
     (if k' = k then (k, v) # d else (k', v') # dict_set d k v)"

definition keys :: "doc \<Rightarrow> string list" where
  "keys d = map fst d"

definition dict_get :: "doc \<Rightarrow> string \<Rightarrow> json option" where
  "dict_get d k = map_of d k"

subsection \<open>The host object model, as the source reads it\<close>

text \<open>A class object: only \<open>get_name()\<close> is called on it.\<close>

record uclass =
  class_get_name :: "string attempt"

text \<open>An object of which the source reads \<open>get_name()\<close> and \<open>get_class()\<close>.\<close>

record uobject =
  obj_get_name :: "string attempt"
  obj_get_class :: "uclass attempt"

text \<open>\<open>pin.get_editor_property("pin_type")\<close> and its two properties.\<close>

record pin_type =
  pin_category :: "pyval attempt"
  pin_sub_category_object :: "uobject option attempt"

text \<open>
  An endpoint in a pin's \<open>linked_to\<close> array: the source calls \<open>get_owning_node()\<close>
  and reads \<open>pin_name\<close>.
\<close>

record linked_pin =
  lp_get_owning_node :: "uobject attempt"
  lp_pin_name :: "pyval attempt"

text \<open>
  A pin. An array-valued property that is \<open>None\<close> fails the same truth test as the empty
  array, and is the empty list here.
\<close>

record pin =
  pin_direction :: "pyval attempt"
  pin_pin_name :: "pyval attempt"
  pin_pin_type :: "pin_type attempt"
  pin_default_value :: "pyval attempt"
  pin_linked_to :: "linked_pin list attempt"

subsection \<open>Pin serializer\<close>

definition get_pin_default :: "pin \<Rightarrow> string option" where
  "get_pin_default p =
     (case pin_default_value p of
        Inl _ \<Rightarrow> None
      | Inr dflt \<Rightarrow> if truthy dflt then Some (py_str dflt) else None)"

definition get_pin_type_str :: "pin \<Rightarrow> string" where
  "get_pin_type_str p =
     (case pin_pin_type p of
        Inl _ \<Rightarrow> ''unknown''
      | Inr pt \<Rightarrow>
          (case pin_category pt of
             Inl _ \<Rightarrow> ''unknown''
           | Inr cat \<Rightarrow>
               (case pin_sub_category_object pt of
                  Inl _ \<Rightarrow> ''unknown''
                | Inr None \<Rightarrow> py_str cat
                | Inr (Some sub_obj) \<Rightarrow>
                    (case obj_get_name sub_obj of
                       Inl _ \<Rightarrow> ''unknown''
                     | Inr n \<Rightarrow> py_str cat @ ''('' @ n @ '')''))))"

text \<open>
  One iteration of the loop over \<open>linked\<close>: the text
  \<open>f"{owner.get_class().get_name()}:{str(linked_pin.get_editor_property('pin_name'))}"\<close>.
\<close>

definition connection_ref :: "linked_pin \<Rightarrow> string attempt" where
  "connection_ref lp =
     (case lp_get_owning_node lp of
        Inl e \<Rightarrow> Inl e
      | Inr owner \<Rightarrow>
          (case obj_get_class owner of
             Inl e \<Rightarrow> Inl e
           | Inr c \<Rightarrow>
               (case class_get_name c of
                  Inl e \<Rightarrow> Inl e
                | Inr cn \<Rightarrow>
                    (case lp_pin_name lp of
                       Inl e \<Rightarrow> Inl e
                     | Inr pn \<Rightarrow> Inr (cn @ '':'' @ py_str pn)))))"

text \<open>The loop \<open>for linked_pin in linked: connections.append(...)\<close>; a raise leaves it.\<close>

fun connection_refs :: "linked_pin list \<Rightarrow> string list \<Rightarrow> string list attempt" where
  "connection_refs [] connections = Inr connections"
| "connection_refs (lp # linked) connections =
     (case connection_ref lp of
        Inl e \<Rightarrow> Inl e
      | Inr r \<Rightarrow> connection_refs linked (connections @ [r]))"

text \<open>The inner \<open>try\<close> of \<open>serialize_pin\<close>: on any raise, \<open>info\<close> is as it was.\<close>

definition add_connected_to :: "pin \<Rightarrow> doc \<Rightarrow> doc" where
  "add_connected_to p info =
     (case pin_linked_to p of
        Inl _ \<Rightarrow> info
      | Inr linked \<Rightarrow>
          if linked \<noteq> [] \<and> length linked > 0 then
            (case connection_refs linked [] of
               Inl _ \<Rightarrow> info
             | Inr connections \<Rightarrow> dict_set info ''connected_to'' (JList (map JStr connections)))
          else info)"

definition pin_fallback :: doc where
  "pin_fallback =
     [(''name'', JStr ''unknown''), (''direction'', JStr ''unknown''), (''type'', JStr ''unknown'')]"

definition serialize_pin :: "(string \<Rightarrow> string) \<Rightarrow> pin \<Rightarrow> doc" where
  "serialize_pin up p =
     (case pin_direction p of
        Inl _ \<Rightarrow> pin_fallback
      | Inr dv \<Rightarrow>
          let direction = py_str dv;
              is_input = (py_in ''INPUT'' (up direction) \<or> py_in ''EGPD_INPUT'' (up direction))
          in (case pin_pin_name p of
                Inl _ \<Rightarrow> pin_fallback
              | Inr nv \<Rightarrow>
                  let info = [(''name'', JStr (py_str nv)),
                              (''direction'', JStr (if is_input then ''Input'' else ''Output'')),
                              (''type'', JStr (get_pin_type_str p))];
                      info = (case get_pin_default p of
                                None \<Rightarrow> info
                              | Some dflt \<Rightarrow>
                                  if dflt \<noteq> [] then dict_set info ''default'' (JStr dflt)
                                  else info)
                  in add_connected_to p info))"

subsection \<open>Node serializer\<close>

text \<open>A member reference (\<open>function_reference\<close>, \<open>variable_reference\<close>, \<open>event_reference\<close>).\<close>

record member_ref =
  mr_member_name :: "pyval attempt"
  mr_member_parent :: "uobject option attempt"

record node =
  node_get_class :: "uclass attempt"
  node_get_name :: "string attempt"
  node_comment :: "pyval attempt"
  node_function_reference :: "member_ref option attempt"
  node_variable_reference :: "member_ref option attempt"
  node_custom_function_name :: "pyval attempt"
  node_event_reference :: "member_ref option attempt"
  node_macro_graph_reference :: "uobject option attempt"
  node_pins :: "pin list attempt"

text \<open>
  Each guarded block of \<open>serialize_node\<close> takes \<open>info\<close> and returns it updated; where the
  block raises, \<open>info\<close> keeps the assignments made before the raise.
\<close>

definition add_comment :: "node \<Rightarrow> doc \<Rightarrow> doc" where
  "add_comment n info =
     (case node_comment n of
        Inl _ \<Rightarrow> info
      | Inr comment \<Rightarrow>
          if truthy comment then dict_set info ''comment'' (JStr (py_str comment)) else info)"

definition add_call_function :: "node \<Rightarrow> doc \<Rightarrow> doc" where
  "add_call_function n info =
     (case node_function_reference n of
        Inl _ \<Rightarrow> info
      | Inr None \<Rightarrow> info
      | Inr (Some member_ref) \<Rightarrow>
          (case mr_member_name member_ref of
             Inl _ \<Rightarrow> info
           | Inr member_name \<Rightarrow>
               let info = (if truthy member_name
                           then dict_set info ''function'' (JStr (py_str member_name))
                           else info)
               in (case mr_member_parent member_ref of
                     Inl _ \<Rightarrow> info
                   | Inr None \<Rightarrow> info
                   | Inr (Some member_parent) \<Rightarrow>
                       (case obj_get_name member_parent of
                          Inl _ \<Rightarrow> info
                        | Inr pn \<Rightarrow> dict_set info ''target_class'' (JStr pn)))))"

definition add_variable :: "node \<Rightarrow> doc \<Rightarrow> doc" where
  "add_variable n info =
     (case node_variable_reference n of
        Inl _ \<Rightarrow> info
      | Inr None \<Rightarrow> info
      | Inr (Some var_ref) \<Rightarrow>
          (case mr_member_name var_ref of
             Inl _ \<Rightarrow> info
           | Inr member_name \<Rightarrow> dict_set info ''variable'' (JStr (py_str member_name))))"

definition add_event :: "node \<Rightarrow> string \<Rightarrow> doc \<Rightarrow> doc" where
  "add_event n node_class info =
     (if node_class = ''K2Node_CustomEvent'' then
        (case node_custom_function_name n of
           Inl _ \<Rightarrow> info
         | Inr fn \<Rightarrow> dict_set info ''event_name'' (JStr (py_str fn)))
      else
        (case node_event_reference n of
           Inl _ \<Rightarrow> info
         | Inr None \<Rightarrow> info
         | Inr (Some member_ref) \<Rightarrow>
             (case mr_member_name member_ref of
                Inl _ \<Rightarrow> info
              | Inr member_name \<Rightarrow> dict_set info ''event_name'' (JStr (py_str member_name)))))"

definition add_macro :: "node \<Rightarrow> doc \<Rightarrow> doc" where
  "add_macro n info =
     (case node_macro_graph_reference n of
        Inl _ \<Rightarrow> info
      | Inr None \<Rightarrow> info
      | Inr (Some macro_graph) \<Rightarrow>
          (case obj_get_name macro_graph of
             Inl _ \<Rightarrow> info
           | Inr mn \<Rightarrow> dict_set info ''macro'' (JStr mn)))"

text \<open>The \<open>if\<close>/\<open>elif\<close> chain on \<open>node_class\<close>.\<close>

definition add_extension :: "node \<Rightarrow> string \<Rightarrow> doc \<Rightarrow> doc" where
  "add_extension n node_class info =
     (if node_class = ''K2Node_CallFunction'' then add_call_function n info
      else if node_class = ''K2Node_VariableGet'' \<or> node_class = ''K2Node_VariableSet''
        then add_variable n info
      else if node_class = ''K2Node_Event'' \<or> node_class = ''K2Node_CustomEvent''
        then add_event n node_class info
      else if node_class = ''K2Node_MacroInstance'' then add_macro n info
      else info)"

text \<open>
  The keys the chain can assign for a class name (used to state what \<open>add_extension\<close>
  leaves alone).
\<close>

definition extension_fields :: "string \<Rightarrow> string set" where
  "extension_fields c =
     (if c = ''K2Node_CallFunction'' then {''function'', ''target_class''}
      else if c = ''K2Node_VariableGet'' \<or> c = ''K2Node_VariableSet'' then {''variable''}
      else if c = ''K2Node_Event'' \<or> c = ''K2Node_CustomEvent'' then {''event_name''}
      else if c = ''K2Node_MacroInstance'' then {''macro''}
      else {})"

text \<open>
  The loop over \<open>pins\<close>. The name of each pin is read in the loop body, before
  \<open>serialize_pin\<close> is called and outside its \<open>try\<close>: a raise there leaves the loop and
  the whole pins block.
\<close>

fun collect_pins :: "(string \<Rightarrow> string) \<Rightarrow> pin list \<Rightarrow> json list \<Rightarrow> json list attempt" where
  "collect_pins up [] pin_list = Inr pin_list"
| "collect_pins up (p # pins) pin_list =
     (case pin_pin_name p of
        Inl e \<Rightarrow> Inl e
      | Inr nv \<Rightarrow>
          if py_str nv \<in> set [''execute'', ''then'', '''']
          then collect_pins up pins pin_list
          else collect_pins up pins (pin_list @ [JObj (serialize_pin up p)]))"

definition add_pins :: "(string \<Rightarrow> string) \<Rightarrow> node \<Rightarrow> doc \<Rightarrow> doc" where
  "add_pins up n info =
     (case node_pins n of
        Inl _ \<Rightarrow> info
      | Inr pins \<Rightarrow>
          if pins \<noteq> [] then
            (case collect_pins up pins [] of
               Inl _ \<Rightarrow> info
             | Inr pin_list \<Rightarrow>
                 if pin_list \<noteq> [] then dict_set info ''pins'' (JList pin_list) else info)
          else info)"

text \<open>The two identity reads at the head of \<open>serialize_node\<close> are not guarded.\<close>

definition serialize_node :: "(string \<Rightarrow> string) \<Rightarrow> node \<Rightarrow> doc attempt" where
  "serialize_node up n =
     (case node_get_class n of
        Inl e \<Rightarrow> Inl e
      | Inr c \<Rightarrow>
          (case class_get_name c of
             Inl e \<Rightarrow> Inl e
           | Inr node_class \<Rightarrow>
               (case node_get_name n of
                  Inl e \<Rightarrow> Inl e
                | Inr nm \<Rightarrow>
                    let info = [(''class'', JStr node_class), (''name'', JStr nm)];
                        info = add_comment n info;
                        info = add_extension n node_class info;
                        info = add_pins up n info
                    in Inr info)))"

subsection \<open>Graph serializer\<close>

record graph =
  graph_get_name :: "string attempt"
  graph_get_class :: "uclass attempt"
  graph_nodes :: "node list attempt"

text \<open>
  The loop \<open>for node in graph_nodes: nodes.append(serialize_node(node))\<close> inside one
  \<open>try\<close>: a raise of \<open>serialize_node\<close> leaves the loop with the fragments appended so far.
\<close>

fun serialize_nodes :: "(string \<Rightarrow> string) \<Rightarrow> node list \<Rightarrow> json list \<Rightarrow> json list" where
  "serialize_nodes up [] nodes = nodes"
| "serialize_nodes up (n # ns) nodes =
     (case serialize_node up n of
        Inl _ \<Rightarrow> nodes
      | Inr info \<Rightarrow> serialize_nodes up ns (nodes @ [JObj info]))"

definition serialize_graph :: "(string \<Rightarrow> string) \<Rightarrow> graph \<Rightarrow> doc attempt" where
  "serialize_graph up g =
     (case graph_get_name g of
        Inl e \<Rightarrow> Inl e
      | Inr nm \<Rightarrow>
          let graph_info = [(''name'', JStr nm)];
              graph_info = (case graph_get_class g of
                              Inl _ \<Rightarrow> graph_info
                            | Inr c \<Rightarrow>
                                (case class_get_name c of
                                   Inl _ \<Rightarrow> graph_info
                                 | Inr cn \<Rightarrow> dict_set graph_info ''class'' (JStr cn)));
              nodes = (case graph_nodes g of
                         Inl _ \<Rightarrow> []
                       | Inr ns \<Rightarrow> if ns \<noteq> [] then serialize_nodes up ns [] else [])
          in Inr (dict_set graph_info ''nodes'' (JList nodes)))"

subsection \<open>Property extractor\<close>

datatype property_flag = BLUEPRINT_VISIBLE | BLUEPRINT_READ_ONLY | EDIT_ANYWHERE | NET_REPLICATE

record uproperty =
  prop_get_name :: "string attempt"
  prop_get_class :: "uclass attempt"
  prop_has_any_property_flags :: "property_flag \<Rightarrow> bool attempt"

text \<open>The class default object: \<open>cdo.get_editor_property(prop_name)\<close>.\<close>

record default_object =
  cdo_get_editor_property :: "string \<Rightarrow> pyval attempt"

text \<open>
  The generated class. \<open>bpc_get_default_object\<close> is the outcome of
  \<open>unreal.get_default_object(bp_class)\<close>.
\<close>

record bp_class =
  bpc_get_name :: "string attempt"
  bpc_get_super_class :: "uclass option attempt"
  bpc_get_default_object :: "default_object option attempt"
  bpc_properties :: "uproperty list attempt"

definition add_default_value :: "default_object \<Rightarrow> string \<Rightarrow> doc \<Rightarrow> doc" where
  "add_default_value cdo prop_name prop_info =
     (case cdo_get_editor_property cdo prop_name of
        Inl _ \<Rightarrow> prop_info
      | Inr PyNone \<Rightarrow> prop_info
      | Inr v \<Rightarrow> dict_set prop_info ''default_value'' (JStr (py_str v)))"

text \<open>The four flag tests share one \<open>try\<close>: a raise keeps the flags set before it.\<close>

definition add_flags :: "uproperty \<Rightarrow> doc \<Rightarrow> doc" where
  "add_flags prop prop_info =
     (case prop_has_any_property_flags prop BLUEPRINT_VISIBLE of
        Inl _ \<Rightarrow> prop_info
      | Inr b1 \<Rightarrow>
          let prop_info = (if b1 then dict_set prop_info ''blueprint_visible'' (JBool True)
                           else prop_info)
          in (case prop_has_any_property_flags prop BLUEPRINT_READ_ONLY of
                Inl _ \<Rightarrow> prop_info
              | Inr b2 \<Rightarrow>
                  let prop_info = (if b2 then dict_set prop_info ''blueprint_read_only'' (JBool True)
                                   else prop_info)
                  in (case prop_has_any_property_flags prop EDIT_ANYWHERE of
                        Inl _ \<Rightarrow> prop_info
                      | Inr b3 \<Rightarrow>
                          let prop_info = (if b3 then dict_set prop_info ''edit_anywhere'' (JBool True)
                                           else prop_info)
                          in (case prop_has_any_property_flags prop NET_REPLICATE of
                                Inl _ \<Rightarrow> prop_info
                              | Inr b4 \<Rightarrow>
                                  if b4 then dict_set prop_info ''replicated'' (JBool True)
                                  else prop_info))))"

text \<open>The body of the loop over the properties; \<open>Inl\<close> is its \<open>except: continue\<close>.\<close>

definition property_info :: "default_object \<Rightarrow> uproperty \<Rightarrow> doc attempt" where
  "property_info cdo prop =
     (case prop_get_name prop of
        Inl e \<Rightarrow> Inl e
      | Inr prop_name \<Rightarrow>
          (case prop_get_class prop of
             Inl e \<Rightarrow> Inl e
           | Inr c \<Rightarrow>
               (case class_get_name c of
                  Inl e \<Rightarrow> Inl e
                | Inr prop_class \<Rightarrow>
                    let prop_info = [(''name'', JStr prop_name), (''property_class'', JStr prop_class)];
                        prop_info = add_default_value cdo prop_name prop_info;
                        prop_info = add_flags prop prop_info
                    in Inr prop_info)))"

fun collect_properties :: "default_object \<Rightarrow> uproperty list \<Rightarrow> json list \<Rightarrow> json list" where
  "collect_properties cdo [] properties = properties"
| "collect_properties cdo (prop # props) properties =
     (case property_info cdo prop of
        Inl _ \<Rightarrow> collect_properties cdo props properties
      | Inr prop_info \<Rightarrow> collect_properties cdo props (properties @ [JObj prop_info]))"

definition get_property_info :: "bp_class \<Rightarrow> json list" where
  "get_property_info c =
     (case bpc_get_default_object c of
        Inl _ \<Rightarrow> []
      | Inr None \<Rightarrow> []
      | Inr (Some cdo) \<Rightarrow>
          (case bpc_properties c of
             Inl _ \<Rightarrow> []
           | Inr props \<Rightarrow> collect_properties cdo props []))"

subsection \<open>Component extractor\<close>

record scs_node =
  scs_component_template :: "uobject option attempt"
  scs_parent_component_or_variable_name :: "pyval attempt"

record construction_script =
  scs_get_all_nodes :: "scs_node list attempt"

text \<open>
  The body of the loop over the construction-script nodes: \<open>Inl\<close> is its
  \<open>except: continue\<close>, \<open>Inr None\<close> a node without template, for which nothing is appended.
\<close>

definition component_info :: "scs_node \<Rightarrow> doc option attempt" where
  "component_info sn =
     (case scs_component_template sn of
        Inl e \<Rightarrow> Inl e
      | Inr None \<Rightarrow> Inr None
      | Inr (Some template) \<Rightarrow>
          (case obj_get_name template of
             Inl e \<Rightarrow> Inl e
           | Inr tn \<Rightarrow>
               (case obj_get_class template of
                  Inl e \<Rightarrow> Inl e
                | Inr c \<Rightarrow>
                    (case class_get_name c of
                       Inl e \<Rightarrow> Inl e
                     | Inr cn \<Rightarrow>
                         let comp_info = [(''name'', JStr tn), (''class'', JStr cn)]
                         in (case scs_parent_component_or_variable_name sn of
                               Inl e \<Rightarrow> Inl e
                             | Inr parent_node \<Rightarrow>
                                 Inr (Some (if truthy parent_node
                                            then dict_set comp_info ''parent'' (JStr (py_str parent_node))
                                            else comp_info)))))))"

fun collect_components :: "scs_node list \<Rightarrow> json list \<Rightarrow> json list" where
  "collect_components [] components = components"
| "collect_components (sn # root_nodes) components =
     (case component_info sn of
        Inl _ \<Rightarrow> collect_components root_nodes components
      | Inr None \<Rightarrow> collect_components root_nodes components
      | Inr (Some comp_info) \<Rightarrow> collect_components root_nodes (components @ [JObj comp_info]))"

subsection \<open>Asset serializer\<close>

record bp_interface =
  iface_interface :: "uclass option attempt"

record blueprint =
  bp_get_name :: "string attempt"
  bp_get_path_name :: "string attempt"
  bp_generated_class :: "bp_class option attempt"
  bp_blueprint_type :: "pyval attempt"
  bp_implemented_interfaces :: "bp_interface list attempt"
  bp_simple_construction_script :: "construction_script option attempt"
  bp_ubergraph_pages :: "graph list attempt"
  bp_function_graphs :: "graph list attempt"
  bp_macro_graphs :: "graph list attempt"

definition get_components :: "blueprint \<Rightarrow> json list" where
  "get_components bp =
     (case bp_simple_construction_script bp of
        Inl _ \<Rightarrow> []
      | Inr None \<Rightarrow> []
      | Inr (Some scs) \<Rightarrow>
          (case scs_get_all_nodes scs of
             Inl _ \<Rightarrow> []
           | Inr root_nodes \<Rightarrow> collect_components root_nodes []))"

text \<open>
  What \<open>load_asset\<close> returns when it returns an object: \<open>isinstance(asset, unreal.Blueprint)\<close>
  is the test for the first constructor.
\<close>

datatype asset = Blueprint blueprint | OtherAsset uobject

definition add_generated_class :: "blueprint \<Rightarrow> doc \<Rightarrow> doc" where
  "add_generated_class bp result =
     (case bp_generated_class bp of
        Inl _ \<Rightarrow> result
      | Inr None \<Rightarrow> result
      | Inr (Some gen_class) \<Rightarrow>
          (case bpc_get_name gen_class of
             Inl _ \<Rightarrow> result
           | Inr gn \<Rightarrow>
               let result = dict_set result ''generated_class'' (JStr gn)
               in (case bpc_get_super_class gen_class of
                     Inl _ \<Rightarrow> result
                   | Inr None \<Rightarrow> result
                   | Inr (Some parent) \<Rightarrow>
                       (case class_get_name parent of
                          Inl _ \<Rightarrow> result
                        | Inr pn \<Rightarrow> dict_set result ''parent_class'' (JStr pn)))))"

definition add_blueprint_type :: "blueprint \<Rightarrow> doc \<Rightarrow> doc" where
  "add_blueprint_type bp result =
     (case bp_blueprint_type bp of
        Inl _ \<Rightarrow> result
      | Inr bp_type \<Rightarrow> dict_set result ''blueprint_type'' (JStr (py_str bp_type)))"

text \<open>
  The body of the loop over the interface records, which has its own \<open>try\<close>: the name
  it appends to \<open>result["interfaces"]\<close>, or \<open>None\<close> when it appends nothing (the
  class of the record is null, or a read raises and the iteration is left by \<open>continue\<close>).
\<close>

definition interface_name :: "bp_interface \<Rightarrow> string option" where
  "interface_name iface =
     (case iface_interface iface of
        Inl _ \<Rightarrow> None
      | Inr None \<Rightarrow> None
      | Inr (Some iface_class) \<Rightarrow>
          (case class_get_name iface_class of
             Inl _ \<Rightarrow> None
           | Inr cn \<Rightarrow> Some cn))"

fun collect_interfaces :: "bp_interface list \<Rightarrow> json list \<Rightarrow> json list" where
  "collect_interfaces [] names = names"
| "collect_interfaces (iface # interfaces) names =
     (case interface_name iface of
        None \<Rightarrow> collect_interfaces interfaces names
      | Some cn \<Rightarrow> collect_interfaces interfaces (names @ [JStr cn]))"

text \<open>
  \<open>result["interfaces"] = []\<close> is assigned before the loop, as soon as the array of
  records is not empty.
\<close>

definition add_interfaces :: "blueprint \<Rightarrow> doc \<Rightarrow> doc" where
  "add_interfaces bp result =
     (case bp_implemented_interfaces bp of
        Inl _ \<Rightarrow> result
      | Inr interfaces \<Rightarrow>
          if interfaces \<noteq> [] \<and> length interfaces > 0
          then dict_set (dict_set result ''interfaces'' (JList []))
                 ''interfaces'' (JList (collect_interfaces interfaces []))
          else result)"

definition add_variables :: "blueprint \<Rightarrow> doc \<Rightarrow> doc" where
  "add_variables bp result =
     (case bp_generated_class bp of
        Inl _ \<Rightarrow> result
      | Inr None \<Rightarrow> result
      | Inr (Some gen_class) \<Rightarrow>
          let props = get_property_info gen_class
          in if props \<noteq> [] then dict_set result ''variables'' (JList props) else result)"

definition add_components :: "blueprint \<Rightarrow> doc \<Rightarrow> doc" where
  "add_components bp result =
     (let components = get_components bp
      in if components \<noteq> [] then dict_set result ''components'' (JList components) else result)"

text \<open>
  One of the three loops over a graph category: \<open>g = serialize_graph(graph)\<close>,
  \<open>g["graph_type"] = t\<close>, \<open>graphs.append(g)\<close>. A raise of \<open>serialize_graph\<close> leaves
  the loop with \<open>graphs\<close> as it is.
\<close>

fun collect_graphs ::
  "(string \<Rightarrow> string) \<Rightarrow> string \<Rightarrow> graph list \<Rightarrow> json list \<Rightarrow> json list" where
  "collect_graphs up t [] graphs = graphs"
| "collect_graphs up t (gr # pages) graphs =
     (case serialize_graph up gr of
        Inl _ \<Rightarrow> graphs
      | Inr g \<Rightarrow> collect_graphs up t pages (graphs @ [JObj (dict_set g ''graph_type'' (JStr t))]))"

definition add_graph_category ::
  "(string \<Rightarrow> string) \<Rightarrow> graph list attempt \<Rightarrow> string \<Rightarrow> json list \<Rightarrow> json list" where
  "add_graph_category up category t graphs =
     (case category of
        Inl _ \<Rightarrow> graphs
      | Inr pages \<Rightarrow> if pages \<noteq> [] then collect_graphs up t pages graphs else graphs)"

text \<open>
  \<open>load_asset\<close> is the host's \<open>unreal.EditorAssetLibrary.load_asset\<close>: \<open>None\<close> when the
  path resolves to nothing. The reads of the class name in the second error message and of
  the name and the path of the blueprint are not guarded.
\<close>

definition blueprint_to_text ::
  "(string \<Rightarrow> string) \<Rightarrow> (string \<Rightarrow> asset option) \<Rightarrow> string \<Rightarrow> doc attempt" where
  "blueprint_to_text up load_asset asset_path =
     (case load_asset asset_path of
        None \<Rightarrow> Inr [(''error'', JStr (''Asset not found: '' @ asset_path))]
      | Some (OtherAsset other) \<Rightarrow>
          (case obj_get_class other of
             Inl e \<Rightarrow> Inl e
           | Inr c \<Rightarrow>
               (case class_get_name c of
                  Inl e \<Rightarrow> Inl e
                | Inr cn \<Rightarrow>
                    Inr [(''error'', JStr (''Asset is not a Blueprint: '' @ asset_path
                                            @ '' (class: '' @ cn @ '')''))]))
      | Some (Blueprint bp) \<Rightarrow>
          (case bp_get_name bp of
             Inl e \<Rightarrow> Inl e
           | Inr nm \<Rightarrow>
               (case bp_get_path_name bp of
                  Inl e \<Rightarrow> Inl e
                | Inr pth \<Rightarrow>
                    let result = [(''name'', JStr nm), (''path'', JStr pth)];
                        result = add_generated_class bp result;
                        result = add_blueprint_type bp result;
                        result = add_interfaces bp result;
                        result = add_variables bp result;
                        result = add_components bp result;
                        graphs = [];
                        graphs = add_graph_category up (bp_ubergraph_pages bp) ''EventGraph'' graphs;
                        graphs = add_graph_category up (bp_function_graphs bp) ''Function'' graphs;
                        graphs = add_graph_category up (bp_macro_graphs bp) ''Macro'' graphs
                    in Inr (if graphs \<noteq> [] then dict_set result ''graphs'' (JList graphs)
                            else result))))"

text \<open>
  The elements a guarded loop over an array property runs through: none when the read of the
  property raises (used to state properties of the loops).
\<close>

definition items :: "'a list attempt \<Rightarrow> 'a list" where
  "items r = (case r of Inl _ \<Rightarrow> [] | Inr xs \<Rightarrow> xs)"

subsection \<open>Example host objects\<close>

text \<open>Concrete objects on which the serializer is evaluated below.\<close>

definition named_class :: "string \<Rightarrow> uclass" where
  "named_class n = \<lparr>class_get_name = Inr n\<rparr>"

definition ex_owner :: uobject where
  "ex_owner = \<lparr>obj_get_name = Inr ''K2Node_VariableGet_0'',
                obj_get_class = Inr (named_class ''K2Node_VariableGet'')\<rparr>"

definition ex_link :: linked_pin where
  "ex_link = \<lparr>lp_get_owning_node = Inr ex_owner, lp_pin_name = Inr (PyStr ''Health'')\<rparr>"

text \<open>An endpoint whose owning node cannot be resolved.\<close>

definition ex_link_broken :: linked_pin where
  "ex_link_broken = \<lparr>lp_get_owning_node = Inl Exception, lp_pin_name = Inr (PyStr ''Target'')\<rparr>"

definition ex_real_type :: pin_type where
  "ex_real_type = \<lparr>pin_category = Inr (PyStr ''real''), pin_sub_category_object = Inr None\<rparr>"

text \<open>A connected input pin that also holds a default value.\<close>

definition ex_pin :: pin where
  "ex_pin = \<lparr>pin_direction = Inr (PyStr ''EdGraphPinDirection.EGPD_INPUT''),
              pin_pin_name = Inr (PyStr ''Damage''),
              pin_pin_type = Inr ex_real_type,
              pin_default_value = Inr (PyStr ''5.0''),
              pin_linked_to = Inr [ex_link]\<rparr>"

definition ex_pin_half_linked :: pin where
  "ex_pin_half_linked = ex_pin\<lparr>pin_linked_to := Inr [ex_link, ex_link_broken]\<rparr>"

text \<open>A pin whose direction reads and whose name does not, and the converse.\<close>

definition ex_pin_nameless :: pin where
  "ex_pin_nameless = ex_pin\<lparr>pin_pin_name := Inl Exception\<rparr>"

definition ex_pin_no_direction :: pin where
  "ex_pin_no_direction = ex_pin\<lparr>pin_direction := Inl Exception\<rparr>"

text \<open>A pin whose default value is false in Python and has a text: the number \<open>0\<close>.\<close>

definition ex_pin_zero_default :: pin where
  "ex_pin_zero_default = ex_pin\<lparr>pin_default_value := Inr (PyVal False ''0'')\<rparr>"

definition ex_pin_output :: pin where
  "ex_pin_output = \<lparr>pin_direction = Inr (PyStr ''EdGraphPinDirection.EGPD_OUTPUT''),
                     pin_pin_name = Inr (PyStr ''ReturnValue''),
                     pin_pin_type = Inr ex_real_type,
                     pin_default_value = Inr (PyStr []),
                     pin_linked_to = Inr []\<rparr>"

definition ex_pin_execute :: pin where
  "ex_pin_execute = \<lparr>pin_direction = Inr (PyStr ''EdGraphPinDirection.EGPD_INPUT''),
                      pin_pin_name = Inr (PyStr ''execute''),
                      pin_pin_type = Inl Exception,
                      pin_default_value = Inr (PyStr ''1''),
                      pin_linked_to = Inr [ex_link]\<rparr>"

definition ex_member_ref :: member_ref where
  "ex_member_ref = \<lparr>mr_member_name = Inr (PyStr ''ApplyDamage''),
                     mr_member_parent = Inr (Some \<lparr>obj_get_name = Inr ''GameplayStatics'',
                                                   obj_get_class = Inr (named_class ''Class'')\<rparr>)\<rparr>"

definition ex_node :: node where
  "ex_node = \<lparr>node_get_class = Inr (named_class ''K2Node_CallFunction''),
               node_get_name = Inr ''K2Node_CallFunction_0'',
               node_comment = Inr (PyStr []),
               node_function_reference = Inr (Some ex_member_ref),
               node_variable_reference = Inl Exception,
               node_custom_function_name = Inl Exception,
               node_event_reference = Inl Exception,
               node_macro_graph_reference = Inl Exception,
               node_pins = Inr [ex_pin_execute, ex_pin, ex_pin_output]\<rparr>"

text \<open>A node of a kind outside the recognized set, on which every reference reads.\<close>

definition ex_node_branch :: node where
  "ex_node_branch = \<lparr>node_get_class = Inr (named_class ''K2Node_IfThenElse''),
                      node_get_name = Inr ''K2Node_IfThenElse_0'',
                      node_comment = Inr (PyStr ''check''),
                      node_function_reference = Inr (Some ex_member_ref),
                      node_variable_reference = Inr (Some ex_member_ref),
                      node_custom_function_name = Inr (PyStr ''OnHit''),
                      node_event_reference = Inr (Some ex_member_ref),
                      node_macro_graph_reference = Inr (Some ex_owner),
                      node_pins = Inr [ex_pin_execute, ex_pin_output]\<rparr>"

text \<open>A node whose class cannot be read.\<close>

definition ex_node_broken :: node where
  "ex_node_broken = ex_node\<lparr>node_get_class := Inl Exception\<rparr>"

definition ex_node_bad_pins :: node where
  "ex_node_bad_pins = ex_node\<lparr>node_pins := Inr [ex_pin_no_direction, ex_pin_nameless]\<rparr>"

text \<open>A node with one well-formed data pin, followed by a pin whose name cannot be read.\<close>

definition ex_node_lost_pins :: node where
  "ex_node_lost_pins = ex_node\<lparr>node_pins := Inr [ex_pin_output, ex_pin_nameless]\<rparr>"

text \<open>A node whose only pin has a readable name and an unreadable direction.\<close>

definition ex_node_unknown_direction :: node where
  "ex_node_unknown_direction = ex_node\<lparr>node_pins := Inr [ex_pin_no_direction]\<rparr>"

definition ex_graph_empty :: graph where
  "ex_graph_empty = \<lparr>graph_get_name = Inr ''EventGraph'',
                      graph_get_class = Inr (named_class ''EdGraph''),
                      graph_nodes = Inr []\<rparr>"

definition ex_graph_broken_first :: graph where
  "ex_graph_broken_first = ex_graph_empty\<lparr>graph_nodes := Inr [ex_node_broken, ex_node_branch]\<rparr>"

definition ex_graph_function :: graph where
  "ex_graph_function = \<lparr>graph_get_name = Inr ''ComputeDamage'',
                         graph_get_class = Inl Exception,
                         graph_nodes = Inl Exception\<rparr>"

definition ex_graph_macro :: graph where
  "ex_graph_macro = \<lparr>graph_get_name = Inr ''Retry'',
                      graph_get_class = Inr (named_class ''EdGraph''),
                      graph_nodes = Inr [ex_node_branch]\<rparr>"

text \<open>The minimal blueprint: one empty event graph, nothing else.\<close>

definition ex_blueprint :: blueprint where
  "ex_blueprint = \<lparr>bp_get_name = Inr ''BP_Min'',
                    bp_get_path_name = Inr ''/Game/BP_Min.BP_Min'',
                    bp_generated_class = Inr None,
                    bp_blueprint_type = Inl Exception,
                    bp_implemented_interfaces = Inr [],
                    bp_simple_construction_script = Inr None,
                    bp_ubergraph_pages = Inr [ex_graph_empty],
                    bp_function_graphs = Inr [],
                    bp_macro_graphs = Inr []\<rparr>"

definition ex_blueprint_three :: blueprint where
  "ex_blueprint_three = ex_blueprint\<lparr>bp_function_graphs := Inr [ex_graph_function],
                                      bp_macro_graphs := Inr [ex_graph_macro]\<rparr>"

text \<open>
  A blueprint with two event graphs: the name of the first cannot be read, the second is
  the empty graph above.
\<close>

definition ex_graph_unnamed :: graph where
  "ex_graph_unnamed = ex_graph_empty\<lparr>graph_get_name := Inl Exception\<rparr>"

definition ex_blueprint_cut :: blueprint where
  "ex_blueprint_cut = ex_blueprint\<lparr>bp_ubergraph_pages := Inr [ex_graph_unnamed, ex_graph_empty]\<rparr>"

text \<open>
  A blueprint with two interface records, neither of which resolves: the read of the class
  raises on the first, and the class of the second is null.
\<close>

definition ex_blueprint_lost_interface :: blueprint where
  "ex_blueprint_lost_interface =
     ex_blueprint\<lparr>bp_implemented_interfaces :=
       Inr [\<lparr>iface_interface = Inl Exception\<rparr>, \<lparr>iface_interface = Inr None\<rparr>]\<rparr>"

definition ex_blueprint_interfaces :: blueprint where
  "ex_blueprint_interfaces =
     ex_blueprint\<lparr>bp_implemented_interfaces :=
       Inr [\<lparr>iface_interface = Inr (Some (named_class ''BPI_Damageable''))\<rparr>,
            \<lparr>iface_interface = Inr None\<rparr>]\<rparr>"

definition ex_static_mesh :: uobject where
  "ex_static_mesh = \<lparr>obj_get_name = Inr ''SM_Rock'',
                      obj_get_class = Inr (named_class ''StaticMesh'')\<rparr>"

text \<open>An object that is not a blueprint and whose class cannot be read.\<close>

definition ex_unreadable_asset :: uobject where
  "ex_unreadable_asset = \<lparr>obj_get_name = Inr ''Thing'', obj_get_class = Inl Exception\<rparr>"

definition ex_load_asset :: "string \<Rightarrow> asset option" where
  "ex_load_asset path =
     (if path = ''/Game/SM_Rock'' then Some (OtherAsset ex_static_mesh)
      else if path = ''/Game/BP_Min'' then Some (Blueprint ex_blueprint)
      else if path = ''/Game/BP_Three'' then Some (Blueprint ex_blueprint_three)
      else if path = ''/Game/BP_Lost'' then Some (Blueprint ex_blueprint_lost_interface)
      else if path = ''/Game/BP_Ifaces'' then Some (Blueprint ex_blueprint_interfaces)
      else if path = ''/Game/BP_Cut'' then Some (Blueprint ex_blueprint_cut)
      else if path = ''/Game/Thing'' then Some (OtherAsset ex_unreadable_asset)
      else None)"

section \<open>Properties\<close>

subsection \<open>Dictionaries and strings\<close>

lemmas ex_defs = PyStr_def named_class_def ex_owner_def ex_link_def ex_link_broken_def
  ex_real_type_def ex_pin_def ex_pin_half_linked_def ex_pin_nameless_def ex_pin_no_direction_def
  ex_pin_zero_default_def ex_pin_output_def ex_pin_execute_def ex_member_ref_def ex_node_def
  ex_node_branch_def ex_node_broken_def ex_node_bad_pins_def ex_node_lost_pins_def
  ex_node_unknown_direction_def ex_graph_empty_def ex_graph_broken_first_def
  ex_graph_function_def ex_graph_macro_def ex_graph_unnamed_def ex_blueprint_def
  ex_blueprint_three_def ex_blueprint_cut_def ex_blueprint_lost_interface_def
  ex_blueprint_interfaces_def ex_static_mesh_def ex_unreadable_asset_def ex_load_asset_def

lemmas node_defs = serialize_node_def add_comment_def add_extension_def add_call_function_def
  add_variable_def add_event_def add_macro_def add_pins_def

lemmas pin_defs = serialize_pin_def add_connected_to_def connection_ref_def get_pin_default_def
  get_pin_type_str_def pin_fallback_def ascii_upper_def ascii_upper_char_def

lemma keys_dict_set: "set (keys (dict_set d k v)) = insert k (set (keys d))"
  by (induction d k v rule: dict_set.induct) (simp_all add: keys_def insert_commute)

lemma dict_get_dict_set:
  "dict_get (dict_set d k v) k' = (if k' = k then Some v else dict_get d k')"
  by (induction d) (auto simp: dict_get_def)

lemma dict_get_None_iff: "dict_get d k = None \<longleftrightarrow> k \<notin> set (keys d)"
  by (simp add: dict_get_def keys_def map_of_eq_None_iff)

lemma starts_with_iff: "starts_with xs ys \<longleftrightarrow> (\<exists>ss. ys = xs @ ss)"
  by (induction xs ys rule: starts_with.induct) auto

text \<open>\<open>py_in\<close> is the substring relation.\<close>

lemma py_in_iff: "py_in xs ys \<longleftrightarrow> (\<exists>ps ss. ys = ps @ xs @ ss)"
proof (induction ys)
  case Nil
  then show ?case by auto
next
  case (Cons y ys)
  show ?case
  proof
    assume "py_in xs (y # ys)"
    then consider "starts_with xs (y # ys)" | "py_in xs ys" by auto
    then show "\<exists>ps ss. y # ys = ps @ xs @ ss"
    proof cases
      case 1
      then obtain ss where "y # ys = xs @ ss" by (auto simp: starts_with_iff)
      then have "y # ys = [] @ xs @ ss" by simp
      then show ?thesis by blast
    next
      case 2
      then obtain ps ss where "ys = ps @ xs @ ss" using Cons.IH by auto
      then have "y # ys = (y # ps) @ xs @ ss" by simp
      then show ?thesis by blast
    qed
  next
    assume "\<exists>ps ss. y # ys = ps @ xs @ ss"
    then obtain ps ss where e: "y # ys = ps @ xs @ ss" by auto
    show "py_in xs (y # ys)"
    proof (cases ps)
      case Nil
      then have "starts_with xs (y # ys)" using e by (auto simp: starts_with_iff)
      then show ?thesis by simp
    next
      case (Cons p ps')
      then have "ys = ps' @ xs @ ss" using e by simp
      then have "py_in xs ys" using Cons.IH by blast
      then show ?thesis by simp
    qed
  qed
qed

text \<open>The second disjunct of \<open>is_input\<close> adds nothing to the first.\<close>

lemma egpd_input_redundant: "py_in ''EGPD_INPUT'' s \<Longrightarrow> py_in ''INPUT'' s"
proof -
  assume "py_in ''EGPD_INPUT'' s"
  then obtain ps ss where "s = ps @ ''EGPD_INPUT'' @ ss" by (auto simp: py_in_iff)
  then have "s = (ps @ ''EGPD_'') @ ''INPUT'' @ ss" by simp
  then show ?thesis unfolding py_in_iff by blast
qed

subsection \<open>Pins\<close>

lemma connection_refs_raise:
  "lp \<in> set linked \<Longrightarrow> connection_ref lp = Inl e \<Longrightarrow> \<exists>e'. connection_refs linked acc = Inl e'"
  by (induction linked arbitrary: acc) (auto split: sum.splits)

lemma connection_refs_all:
  "\<forall>lp \<in> set linked. \<exists>r. connection_ref lp = Inr r \<Longrightarrow>
   connection_refs linked acc = Inr (acc @ map (\<lambda>lp. projr (connection_ref lp)) linked)"
  by (induction linked arbitrary: acc) (auto split: sum.splits)

lemma add_connected_to_raise:
  assumes "pin_linked_to p = Inr linked" "lp \<in> set linked" "connection_ref lp = Inl e"
  shows "add_connected_to p info = info"
proof -
  obtain e' where "connection_refs linked [] = Inl e'"
    using connection_refs_raise[OF assms(2,3)] by blast
  then show ?thesis using assms(1) by (simp add: add_connected_to_def)
qed

lemma add_connected_to_unlinked:
  "pin_linked_to p = Inr [] \<Longrightarrow> add_connected_to p info = info"
  by (simp add: add_connected_to_def)

text \<open>What \<open>serialize_pin\<close> returns when name and direction read.\<close>

lemma serialize_pin_read:
  assumes "pin_direction p = Inr dv" "pin_pin_name p = Inr nv"
  shows "serialize_pin up p =
           add_connected_to p
             (let info = [(''name'', JStr (py_str nv)),
                          (''direction'', JStr (if py_in ''INPUT'' (up (py_str dv))
                                               then ''Input'' else ''Output'')),
                          (''type'', JStr (get_pin_type_str p))]
              in case pin_default_value p of
                   Inl _ \<Rightarrow> info
                 | Inr v \<Rightarrow> if truthy v \<and> py_str v \<noteq> []
                           then info @ [(''default'', JStr (py_str v))] else info)"
proof -
  have "py_in ''INPUT'' (up (py_str dv)) \<or> py_in ''EGPD_INPUT'' (up (py_str dv))
        \<longleftrightarrow> py_in ''INPUT'' (up (py_str dv))"
    using egpd_input_redundant by blast
  then show ?thesis using assms
    by (auto simp: serialize_pin_def get_pin_default_def Let_def split: sum.splits)
qed

lemma serialize_pin_fallback:
  "pin_direction p = Inl e \<or> pin_pin_name p = Inl e \<Longrightarrow> serialize_pin up p = pin_fallback"
  by (auto simp: serialize_pin_def Let_def split: sum.splits)

lemma keys_add_connected_to:
  "set (keys (add_connected_to p info)) \<subseteq> insert ''connected_to'' (set (keys info))"
  by (auto simp: add_connected_to_def keys_dict_set split: sum.splits)

lemma dict_get_add_connected_to:
  "k \<noteq> ''connected_to'' \<Longrightarrow> dict_get (add_connected_to p info) k = dict_get info k"
  by (auto simp: add_connected_to_def dict_get_dict_set split: sum.splits)

subsection \<open>C10: cross-references are all or nothing\<close>

text \<open>
  C10. For a pin whose link list reads, if resolving any one linked endpoint raises (its
  owning node, the node's class, the class name or the endpoint's pin name), the fragment
  has no \<open>connected_to\<close> field at all: it is the very fragment the same pin would have with
  an empty link list, so the references resolved before the raise are discarded and no
  partial list or placeholder is emitted.
\<close>

theorem connected_to_all_or_nothing:
  assumes "pin_linked_to p = Inr linked" and "lp \<in> set linked" and "connection_ref lp = Inl e"
  shows "''connected_to'' \<notin> set (keys (serialize_pin up p))
         \<and> serialize_pin up p = serialize_pin up (p\<lparr>pin_linked_to := Inr []\<rparr>)"
proof -
  let ?q = "p\<lparr>pin_linked_to := Inr []\<rparr>"
  have same: "add_connected_to p info = info" for info
    using add_connected_to_raise[OF assms] .
  have none: "add_connected_to ?q info = info" for info
    by (simp add: add_connected_to_unlinked)
  have d: "get_pin_default ?q = get_pin_default p"
    by (simp add: get_pin_default_def)
  have t: "get_pin_type_str ?q = get_pin_type_str p"
    by (simp add: get_pin_type_str_def)
  have eq: "serialize_pin up p = serialize_pin up ?q"
    by (simp add: serialize_pin_def Let_def same none d t split: sum.splits)
  have "''connected_to'' \<notin> set (keys (serialize_pin up p))"
    by (auto simp: serialize_pin_def same pin_fallback_def keys_dict_set keys_def Let_def
             split: sum.splits option.splits)
  with eq show ?thesis by simp
qed

theorem connected_to_all_or_nothing_witness:
  "pin_linked_to ex_pin_half_linked = Inr [ex_link, ex_link_broken]
   \<and> connection_ref ex_link = Inr ''K2Node_VariableGet:Health''
   \<and> connection_ref ex_link_broken = Inl Exception
   \<and> ''connected_to'' \<notin> set (keys (serialize_pin ascii_upper ex_pin_half_linked))
   \<and> serialize_pin ascii_upper ex_pin_half_linked
       = [(''name'', JStr ''Damage''), (''direction'', JStr ''Input''),
          (''type'', JStr ''real''), (''default'', JStr ''5.0'')]"
proof -
  have l: "pin_linked_to ex_pin_half_linked = Inr [ex_link, ex_link_broken]"
    by (simp add: ex_defs)
  have m: "ex_link_broken \<in> set [ex_link, ex_link_broken]" by simp
  have b: "connection_ref ex_link_broken = Inl Exception"
    by (simp add: connection_ref_def ex_defs)
  have "serialize_pin ascii_upper (ex_pin_half_linked\<lparr>pin_linked_to := Inr []\<rparr>)
          = [(''name'', JStr ''Damage''), (''direction'', JStr ''Input''),
             (''type'', JStr ''real''), (''default'', JStr ''5.0'')]"
    by (simp add: pin_defs ex_defs)
  moreover have "connection_ref ex_link = Inr ''K2Node_VariableGet:Health''"
    by (simp add: connection_ref_def ex_defs)
  ultimately show ?thesis
    using connected_to_all_or_nothing[OF l m b] l b by (simp add: keys_def)
qed

subsection \<open>C2: the default field of a pin\<close>

text \<open>
  C2, as stated, fails: \<open>ex_pin\<close> has one linked endpoint, which resolves, and a default
  value; its fragment carries both \<open>default\<close> and \<open>connected_to\<close>.
\<close>

theorem default_on_connected_pin:
  "pin_linked_to ex_pin = Inr [ex_link]
   \<and> dict_get (serialize_pin ascii_upper ex_pin) ''default'' = Some (JStr ''5.0'')
   \<and> dict_get (serialize_pin ascii_upper ex_pin) ''connected_to''
         = Some (JList [JStr ''K2Node_VariableGet:Health''])"
  by (simp add: pin_defs ex_defs dict_get_def)

text \<open>
  C2, amended. The fragment of a pin has a \<open>default\<close> field exactly when the direction
  and the name of the pin read (the fragment is not the fallback) and the read of
  \<open>default_value\<close> returns a value that is true in Python and whose text is not empty; the
  field is that text. The linked endpoints of the pin play no part: with any other outcome
  \<open>l\<close> of the read of the link list, the \<open>default\<close> field is the same.
\<close>

theorem default_iff_default_value:
  "dict_get (serialize_pin up p) ''default'' =
     (case (pin_direction p, pin_pin_name p, pin_default_value p) of
        (Inr dv, Inr nv, Inr v) \<Rightarrow>
          if truthy v \<and> py_str v \<noteq> [] then Some (JStr (py_str v)) else None
      | _ \<Rightarrow> None)
   \<and> dict_get (serialize_pin up (p\<lparr>pin_linked_to := l\<rparr>)) ''default''
       = dict_get (serialize_pin up p) ''default''"
proof -
  have main: "dict_get (serialize_pin up q) ''default'' =
     (case (pin_direction q, pin_pin_name q, pin_default_value q) of
        (Inr dv, Inr nv, Inr v) \<Rightarrow>
          if truthy v \<and> py_str v \<noteq> [] then Some (JStr (py_str v)) else None
      | _ \<Rightarrow> None)" for q
  proof (cases "\<exists>dv nv. pin_direction q = Inr dv \<and> pin_pin_name q = Inr nv")
    case True
    then obtain dv nv where r: "pin_direction q = Inr dv" "pin_pin_name q = Inr nv" by blast
    show ?thesis
      by (simp add: serialize_pin_read[OF r] r dict_get_add_connected_to)
         (simp add: dict_get_def Let_def split: sum.splits)
  next
    case False
    then obtain e where "pin_direction q = Inl e \<or> pin_pin_name q = Inl e"
      by (cases "pin_direction q"; cases "pin_pin_name q") auto
    then show ?thesis
      by (auto simp: serialize_pin_fallback pin_fallback_def dict_get_def split: sum.splits)
  qed
  have "dict_get (serialize_pin up (p\<lparr>pin_linked_to := l\<rparr>)) ''default''
          = dict_get (serialize_pin up p) ''default''"
    by (simp add: main[of "p\<lparr>pin_linked_to := l\<rparr>"] main[of p])
  with main[of p] show ?thesis by simp
qed

text \<open>
  On the connected pin \<open>ex_pin\<close>, with and without its link; on a pin whose default is
  the empty string; and on a pin whose default is the number \<open>0\<close>, which is false.
\<close>

theorem default_iff_default_value_witness:
  "dict_get (serialize_pin ascii_upper ex_pin) ''default'' = Some (JStr ''5.0'')
   \<and> dict_get (serialize_pin ascii_upper (ex_pin\<lparr>pin_linked_to := Inr []\<rparr>)) ''default''
       = Some (JStr ''5.0'')
   \<and> dict_get (serialize_pin ascii_upper ex_pin_output) ''default'' = None
   \<and> dict_get (serialize_pin ascii_upper ex_pin_zero_default) ''default'' = None"
  using default_iff_default_value[where up = ascii_upper and p = ex_pin and l = "Inr []"]
    default_iff_default_value[where up = ascii_upper and p = ex_pin_output and l = "Inr []"]
    default_iff_default_value[where up = ascii_upper and p = ex_pin_zero_default and l = "Inr []"]
  by (simp add: ex_defs)

subsection \<open>C8: the direction of a pin\<close>

text \<open>
  C8, as stated, fails: the name of \<open>ex_pin_no_direction\<close> reads and is not filtered, the
  read of its direction raises, and the direction emitted for it is \<open>unknown\<close>, in the
  fragment of the pin and in the \<open>pins\<close> list of the node that owns it.
\<close>

theorem unknown_direction_emitted:
  "pin_pin_name ex_pin_no_direction = Inr (PyStr ''Damage'')
   \<and> pin_direction ex_pin_no_direction = Inl Exception
   \<and> dict_get (serialize_pin ascii_upper ex_pin_no_direction) ''direction'' = Some (JStr ''unknown'')
   \<and> node_pins ex_node_unknown_direction = Inr [ex_pin_no_direction]
   \<and> serialize_node ascii_upper ex_node_unknown_direction
       = Inr [(''class'', JStr ''K2Node_CallFunction''),
              (''name'', JStr ''K2Node_CallFunction_0''),
              (''function'', JStr ''ApplyDamage''),
              (''target_class'', JStr ''GameplayStatics''),
              (''pins'', JList [JObj [(''name'', JStr ''unknown''),
                                      (''direction'', JStr ''unknown''),
                                      (''type'', JStr ''unknown'')]])]"
  by (simp add: node_defs pin_defs ex_defs dict_get_def)

text \<open>
  C8, amended. Here \<open>up\<close> is \<open>str.upper\<close>. When the direction and the name of a pin
  both read, the emitted direction is \<open>Input\<close> exactly when the upper-cased text of the
  direction value contains \<open>INPUT\<close>, and \<open>Output\<close> otherwise. When the read of the
  direction raises, or that of the name, the fragment is the fallback and the emitted
  direction is \<open>unknown\<close>. No other direction is emitted.
\<close>

theorem direction_classification:
  "dict_get (serialize_pin up p) ''direction'' =
     Some (JStr (case (pin_direction p, pin_pin_name p) of
                   (Inr dv, Inr nv) \<Rightarrow>
                     if (\<exists>ps ss. up (py_str dv) = ps @ ''INPUT'' @ ss)
                     then ''Input'' else ''Output''
                 | _ \<Rightarrow> ''unknown''))"
proof (cases "\<exists>dv nv. pin_direction p = Inr dv \<and> pin_pin_name p = Inr nv")
  case True
  then obtain dv nv where r: "pin_direction p = Inr dv" "pin_pin_name p = Inr nv" by blast
  show ?thesis
    unfolding py_in_iff[symmetric]
    by (simp add: serialize_pin_read[OF r] r dict_get_add_connected_to)
       (simp add: dict_get_def Let_def split: sum.splits)
next
  case False
  then obtain e where "pin_direction p = Inl e \<or> pin_pin_name p = Inl e"
    by (cases "pin_direction p"; cases "pin_pin_name p") auto
  then show ?thesis
    unfolding py_in_iff[symmetric]
    by (auto simp: serialize_pin_fallback pin_fallback_def dict_get_def split: sum.splits)
qed

text \<open>On an input pin, an output pin, and a pin whose direction cannot be read.\<close>

theorem direction_classification_witness:
  "dict_get (serialize_pin ascii_upper ex_pin) ''direction'' = Some (JStr ''Input'')
   \<and> dict_get (serialize_pin ascii_upper ex_pin_output) ''direction'' = Some (JStr ''Output'')
   \<and> dict_get (serialize_pin ascii_upper ex_pin_no_direction) ''direction''
       = Some (JStr ''unknown'')"
  using direction_classification[where up = ascii_upper and p = ex_pin,
          unfolded py_in_iff[symmetric]]
    direction_classification[where up = ascii_upper and p = ex_pin_output,
          unfolded py_in_iff[symmetric]]
    direction_classification[where up = ascii_upper and p = ex_pin_no_direction,
          unfolded py_in_iff[symmetric]]
  by (simp add: ex_defs ascii_upper_def ascii_upper_char_def)

subsection \<open>Nodes\<close>

text \<open>A block that leaves the other keys alone adds at most its own keys.\<close>

lemma keys_subset_if_dict_get:
  assumes "\<And>k. k \<notin> S \<Longrightarrow> dict_get d' k = dict_get d k"
  shows "set (keys d') \<subseteq> S \<union> set (keys d)"
proof
  fix k assume k: "k \<in> set (keys d')"
  show "k \<in> S \<union> set (keys d)"
  proof (cases "k \<in> S")
    case False
    then have "dict_get d k = dict_get d' k" using assms by simp
    then show ?thesis using k dict_get_None_iff[of d k] dict_get_None_iff[of d' k] by simp
  qed simp
qed

lemma dict_get_add_comment:
  "k \<noteq> ''comment'' \<Longrightarrow> dict_get (add_comment n info) k = dict_get info k"
  by (simp add: add_comment_def dict_get_dict_set split: sum.splits)

lemma dict_get_add_call_function:
  "k \<noteq> ''function'' \<Longrightarrow> k \<noteq> ''target_class'' \<Longrightarrow>
   dict_get (add_call_function n info) k = dict_get info k"
  by (simp add: add_call_function_def dict_get_dict_set Let_def split: sum.splits option.splits)

lemma dict_get_add_variable:
  "k \<noteq> ''variable'' \<Longrightarrow> dict_get (add_variable n info) k = dict_get info k"
  by (simp add: add_variable_def dict_get_dict_set split: sum.splits option.splits)

lemma dict_get_add_event:
  "k \<noteq> ''event_name'' \<Longrightarrow> dict_get (add_event n c info) k = dict_get info k"
  by (simp add: add_event_def dict_get_dict_set split: sum.splits option.splits)

lemma dict_get_add_macro:
  "k \<noteq> ''macro'' \<Longrightarrow> dict_get (add_macro n info) k = dict_get info k"
  by (simp add: add_macro_def dict_get_dict_set split: sum.splits option.splits)

lemma dict_get_add_pins:
  "k \<noteq> ''pins'' \<Longrightarrow> dict_get (add_pins up n info) k = dict_get info k"
  by (simp add: add_pins_def dict_get_dict_set split: sum.splits)

lemma dict_get_add_extension:
  "k \<notin> extension_fields c \<Longrightarrow> dict_get (add_extension n c info) k = dict_get info k"
  unfolding add_extension_def extension_fields_def
  by (auto simp: dict_get_add_call_function dict_get_add_variable dict_get_add_event
        dict_get_add_macro split: if_splits)

lemma serialize_node_read:
  assumes "node_get_class n = Inr cl" "class_get_name cl = Inr c" "node_get_name n = Inr nm"
  shows "serialize_node up n =
           Inr (add_pins up n (add_extension n c (add_comment n
                  [(''class'', JStr c), (''name'', JStr nm)])))"
  using assms by (simp add: serialize_node_def)

lemma serialize_node_Inr:
  assumes "serialize_node up n = Inr info"
  obtains cl c nm where "node_get_class n = Inr cl" "class_get_name cl = Inr c"
    "node_get_name n = Inr nm"
    "info = add_pins up n (add_extension n c (add_comment n [(''class'', JStr c), (''name'', JStr nm)]))"
  using assms by (auto simp: serialize_node_def split: sum.splits)

text \<open>Outside \<open>comment\<close>, \<open>pins\<close> and the extension fields, a fragment is its base.\<close>

lemma dict_get_node_base:
  assumes "k \<noteq> ''comment''" "k \<noteq> ''pins''" "k \<notin> extension_fields c"
  shows "dict_get (add_pins up n (add_extension n c (add_comment n base))) k = dict_get base k"
  using assms by (simp add: dict_get_add_pins dict_get_add_extension dict_get_add_comment)

lemma keys_node:
  "set (keys (add_pins up n (add_extension n c (add_comment n base))))
     \<subseteq> ({''comment'', ''pins''} \<union> extension_fields c) \<union> set (keys base)"
  by (rule keys_subset_if_dict_get) (simp add: dict_get_node_base)

subsection \<open>C7: extension fields follow the kind tag\<close>

text \<open>
  C7. Let \<open>kind\<close> be the kind tag of a node that serializes to \<open>info\<close>. The fragment
  holds the tag under \<open>class\<close>. If the tag is none of the six recognized ones, the keys
  of the fragment are among \<open>class\<close>, \<open>name\<close>, \<open>comment\<close>, \<open>pins\<close>. In every case
  \<open>function\<close> and \<open>target_class\<close> occur only on a call-function node, \<open>variable\<close> only
  on a variable-get or variable-set node, \<open>event_name\<close> only on an event or custom-event
  node, and \<open>macro\<close> only on a macro-instance node.
\<close>

theorem extension_fields_match_kind:
  assumes "node_get_class n = Inr cl" and "class_get_name cl = Inr kind"
    and "serialize_node up n = Inr info"
  shows "dict_get info ''class'' = Some (JStr kind)
       \<and> (kind \<notin> set [''K2Node_CallFunction'', ''K2Node_VariableGet'', ''K2Node_VariableSet'',
                        ''K2Node_Event'', ''K2Node_CustomEvent'', ''K2Node_MacroInstance'']
            \<longrightarrow> set (keys info) \<subseteq> {''class'', ''name'', ''comment'', ''pins''})
       \<and> (''function'' \<in> set (keys info) \<or> ''target_class'' \<in> set (keys info)
            \<longrightarrow> kind = ''K2Node_CallFunction'')
       \<and> (''variable'' \<in> set (keys info)
            \<longrightarrow> kind = ''K2Node_VariableGet'' \<or> kind = ''K2Node_VariableSet'')
       \<and> (''event_name'' \<in> set (keys info)
            \<longrightarrow> kind = ''K2Node_Event'' \<or> kind = ''K2Node_CustomEvent'')
       \<and> (''macro'' \<in> set (keys info) \<longrightarrow> kind = ''K2Node_MacroInstance'')"
proof -
  obtain nm where info:
    "info = add_pins up n (add_extension n kind (add_comment n
              [(''class'', JStr kind), (''name'', JStr nm)]))"
    using assms by (auto simp: serialize_node_def split: sum.splits)
  let ?base = "[(''class'', JStr kind), (''name'', JStr nm)]"
  have k: "set (keys info)
             \<subseteq> ({''comment'', ''pins''} \<union> extension_fields kind) \<union> set (keys ?base)"
    unfolding info by (rule keys_node)
  have ext: "x \<in> extension_fields kind"
    if "x \<in> set (keys info)" "x \<notin> {''comment'', ''pins''}" "x \<notin> set (keys ?base)" for x
    using subsetD[OF k that(1)] that(2,3) by (simp only: Un_iff) simp
  have "''class'' \<notin> extension_fields kind"
    by (simp add: extension_fields_def)
  then have c: "dict_get info ''class'' = Some (JStr kind)"
    by (simp add: info dict_get_node_base) (simp add: dict_get_def)
  have 1: "set (keys info) \<subseteq> {''class'', ''name'', ''comment'', ''pins''}"
    if "kind \<notin> set [''K2Node_CallFunction'', ''K2Node_VariableGet'', ''K2Node_VariableSet'',
                        ''K2Node_Event'', ''K2Node_CustomEvent'', ''K2Node_MacroInstance'']"
  proof -
    have "extension_fields kind = {}" using that by (simp add: extension_fields_def)
    then have "set (keys info) \<subseteq> ({''comment'', ''pins''} \<union> {}) \<union> {''class'', ''name''}"
      using k by (simp add: keys_def)
    moreover have "(({c, p} \<union> {}) \<union> {a, b}) = {a, b, c, p}" for a b c p :: string
      by auto
    ultimately show ?thesis by simp
  qed
  have 2: "kind = ''K2Node_CallFunction''"
    if "''function'' \<in> set (keys info) \<or> ''target_class'' \<in> set (keys info)"
    using that
  proof
    assume "''function'' \<in> set (keys info)"
    then have "''function'' \<in> extension_fields kind"
      using ext[of "''function''"] by (simp add: keys_def)
    then show ?thesis by (simp add: extension_fields_def split: if_splits)
  next
    assume "''target_class'' \<in> set (keys info)"
    then have "''target_class'' \<in> extension_fields kind"
      using ext[of "''target_class''"] by (simp add: keys_def)
    then show ?thesis by (simp add: extension_fields_def split: if_splits)
  qed
  have 3: "kind = ''K2Node_VariableGet'' \<or> kind = ''K2Node_VariableSet''"
    if "''variable'' \<in> set (keys info)"
  proof -
    have "''variable'' \<in> extension_fields kind"
      using that ext[of "''variable''"] by (simp add: keys_def)
    then show ?thesis by (simp add: extension_fields_def split: if_splits)
  qed
  have 4: "kind = ''K2Node_Event'' \<or> kind = ''K2Node_CustomEvent''"
    if "''event_name'' \<in> set (keys info)"
  proof -
    have "''event_name'' \<in> extension_fields kind"
      using that ext[of "''event_name''"] by (simp add: keys_def)
    then show ?thesis by (simp add: extension_fields_def split: if_splits)
  qed
  have 5: "kind = ''K2Node_MacroInstance''" if "''macro'' \<in> set (keys info)"
  proof -
    have "''macro'' \<in> extension_fields kind"
      using that ext[of "''macro''"] by (simp add: keys_def)
    then show ?thesis by (simp add: extension_fields_def split: if_splits)
  qed
  show ?thesis
    apply (intro conjI impI)
    subgoal by (rule c)
    subgoal by (rule 1)
    subgoal by (rule 2)
    subgoal by (rule 3)
    subgoal by (rule 4)
    subgoal by (rule 5)
    done
qed

text \<open>
  On \<open>ex_node_branch\<close>, a node of unrecognized kind on which every reference would read,
  and on the call-function node \<open>ex_node\<close>.
\<close>

theorem extension_fields_match_kind_witness:
  "serialize_node ascii_upper ex_node_branch
     = Inr [(''class'', JStr ''K2Node_IfThenElse''), (''name'', JStr ''K2Node_IfThenElse_0''),
            (''comment'', JStr ''check''),
            (''pins'', JList [JObj [(''name'', JStr ''ReturnValue''),
                                    (''direction'', JStr ''Output''),
                                    (''type'', JStr ''real'')]])]
   \<and> set (keys (projr (serialize_node ascii_upper ex_node_branch)))
        \<subseteq> {''class'', ''name'', ''comment'', ''pins''}
   \<and> ''function'' \<in> set (keys (projr (serialize_node ascii_upper ex_node)))"
proof -
  have b: "serialize_node ascii_upper ex_node_branch
     = Inr [(''class'', JStr ''K2Node_IfThenElse''), (''name'', JStr ''K2Node_IfThenElse_0''),
            (''comment'', JStr ''check''),
            (''pins'', JList [JObj [(''name'', JStr ''ReturnValue''),
                                    (''direction'', JStr ''Output''),
                                    (''type'', JStr ''real'')]])]"
    by (simp add: node_defs pin_defs ex_defs)
  have g: "node_get_class ex_node_branch = Inr (named_class ''K2Node_IfThenElse'')"
    by (simp add: ex_defs)
  have cn: "class_get_name (named_class ''K2Node_IfThenElse'') = Inr ''K2Node_IfThenElse''"
    by (simp add: ex_defs)
  have f: "''function'' \<in> set (keys (projr (serialize_node ascii_upper ex_node)))"
    by (simp add: node_defs pin_defs ex_defs keys_def)
  show ?thesis
    using extension_fields_match_kind[OF g cn b] b f by simp
qed

subsection \<open>The pin list of a node\<close>

lemma collect_pins_all:
  "\<forall>p \<in> set pins. \<exists>nv. pin_pin_name p = Inr nv \<Longrightarrow>
   collect_pins up pins acc =
     Inr (acc @ map (\<lambda>p. JObj (serialize_pin up p))
                  (filter (\<lambda>p. py_str (projr (pin_pin_name p)) \<notin> set [''execute'', ''then'', ''''])
                     pins))"
proof (induction pins arbitrary: acc)
  case Nil
  show ?case by simp
next
  case (Cons p pins)
  then obtain nv where nv: "pin_pin_name p = Inr nv" by auto
  have "\<forall>p \<in> set pins. \<exists>nv. pin_pin_name p = Inr nv" using Cons.prems by simp
  note IH = Cons.IH[OF this]
  show ?case
  proof (cases "py_str nv \<in> set [''execute'', ''then'', '''']")
    case True
    then show ?thesis using nv IH[of acc] by simp
  next
    case False
    then show ?thesis using nv IH[of "acc @ [JObj (serialize_pin up p)]"] by simp
  qed
qed

lemma collect_pins_invariant:
  assumes "collect_pins up pins acc = Inr out" and "\<forall>f \<in> set acc. Q f"
    and "\<And>p nv. p \<in> set pins \<Longrightarrow> pin_pin_name p = Inr nv \<Longrightarrow>
           py_str nv \<notin> set [''execute'', ''then'', ''''] \<Longrightarrow> Q (JObj (serialize_pin up p))"
  shows "\<forall>f \<in> set out. Q f"
  using assms
proof (induction pins arbitrary: acc)
  case Nil
  then show ?case by simp
next
  case (Cons p pins)
  from Cons.prems(1) obtain nv where nv: "pin_pin_name p = Inr nv"
    by (cases "pin_pin_name p") auto
  have step: "\<And>q nv. q \<in> set pins \<Longrightarrow> pin_pin_name q = Inr nv \<Longrightarrow>
           py_str nv \<notin> set [''execute'', ''then'', ''''] \<Longrightarrow> Q (JObj (serialize_pin up q))"
    using Cons.prems(3) by simp
  show ?case
  proof (cases "py_str nv \<in> set [''execute'', ''then'', '''']")
    case True
    then have "collect_pins up pins acc = Inr out" using Cons.prems(1) nv by simp
    from Cons.IH[OF this Cons.prems(2) step] show ?thesis by simp
  next
    case False
    then have c: "collect_pins up pins (acc @ [JObj (serialize_pin up p)]) = Inr out"
      using Cons.prems(1) nv by simp
    have "Q (JObj (serialize_pin up p))" using Cons.prems(3)[of p nv] nv False by simp
    then have "\<forall>f \<in> set (acc @ [JObj (serialize_pin up p)]). Q f" using Cons.prems(2) by simp
    from Cons.IH[OF c this step] show ?thesis by simp
  qed
qed

text \<open>The name in the fragment of a pin is the name of the pin, or \<open>unknown\<close>.\<close>

lemma fragment_name:
  assumes "pin_pin_name p = Inr nv"
  shows "dict_get (serialize_pin up p) ''name'' = Some (JStr (py_str nv))
         \<or> dict_get (serialize_pin up p) ''name'' = Some (JStr ''unknown'')"
proof (cases "pin_direction p")
  case (Inl e)
  then have "serialize_pin up p = pin_fallback" using serialize_pin_fallback[of p e] by simp
  then show ?thesis by (simp add: pin_fallback_def dict_get_def)
next
  case (Inr dv)
  show ?thesis
    by (simp add: serialize_pin_read[OF Inr assms] dict_get_add_connected_to)
       (simp add: dict_get_def Let_def split: sum.splits)
qed

lemma dict_get_pins:
  assumes "dict_get info ''pins'' = None"
  shows "dict_get (add_pins up n info) ''pins'' =
           (case node_pins n of
              Inl _ \<Rightarrow> None
            | Inr pins \<Rightarrow>
                (case collect_pins up pins [] of
                   Inl _ \<Rightarrow> None
                 | Inr pin_list \<Rightarrow> if pin_list = [] then None else Some (JList pin_list)))"
  using assms by (simp add: add_pins_def dict_get_dict_set split: sum.splits)

lemma serialize_node_pins:
  assumes "serialize_node up n = Inr info"
  shows "dict_get info ''pins'' =
           (case node_pins n of
              Inl _ \<Rightarrow> None
            | Inr pins \<Rightarrow>
                (case collect_pins up pins [] of
                   Inl _ \<Rightarrow> None
                 | Inr pin_list \<Rightarrow> if pin_list = [] then None else Some (JList pin_list)))"
proof -
  obtain cl c nm where info:
    "info = add_pins up n (add_extension n c (add_comment n [(''class'', JStr c), (''name'', JStr nm)]))"
    using assms by (rule serialize_node_Inr)
  have "''pins'' \<notin> extension_fields c" by (simp add: extension_fields_def)
  then have "dict_get (add_extension n c (add_comment n [(''class'', JStr c), (''name'', JStr nm)]))
               ''pins'' = None"
    by (simp add: dict_get_add_extension dict_get_add_comment) (simp add: dict_get_def)
  then show ?thesis unfolding info by (rule dict_get_pins)
qed

subsection \<open>C6: control-flow pins are filtered out\<close>

text \<open>
  What the filter does. For every node that serializes to \<open>info\<close>: if \<open>info\<close> has a
  \<open>pins\<close> field, it is a list that is not empty, and each of its fragments carries a
  name that is none of \<open>execute\<close>, \<open>then\<close> and the empty string. And when the pins of
  the node and the names of all of them read, the field is the list of the fragments of the
  pins whose name is none of these three, in the order of the host, and it is missing
  exactly when no pin is left.
\<close>

theorem pins_filtered_in_order:
  assumes "serialize_node up n = Inr info"
  shows "(case dict_get info ''pins'' of
            None \<Rightarrow> True
          | Some (JList frags) \<Rightarrow>
              frags \<noteq> [] \<and>
              (\<forall>f \<in> set frags. \<exists>d s. f = JObj d \<and> dict_get d ''name'' = Some (JStr s)
                                  \<and> s \<notin> set [''execute'', ''then'', ''''])
          | Some _ \<Rightarrow> False)
       \<and> (\<forall>pins. node_pins n = Inr pins \<and> (\<forall>p \<in> set pins. \<exists>nv. pin_pin_name p = Inr nv) \<longrightarrow>
            dict_get info ''pins'' =
              (let kept = filter (\<lambda>p. py_str (projr (pin_pin_name p))
                                         \<notin> set [''execute'', ''then'', '''']) pins
               in if kept = [] then None
                  else Some (JList (map (\<lambda>p. JObj (serialize_pin up p)) kept))))"
proof (intro conjI allI impI)
  let ?Q = "\<lambda>f. \<exists>d s. f = JObj d \<and> dict_get d ''name'' = Some (JStr s)
                     \<and> s \<notin> set [''execute'', ''then'', '''']"
  note pins = serialize_node_pins[OF assms]
  show "case dict_get info ''pins'' of
            None \<Rightarrow> True
          | Some (JList frags) \<Rightarrow> frags \<noteq> [] \<and> (\<forall>f \<in> set frags. ?Q f)
          | Some _ \<Rightarrow> False"
  proof (cases "node_pins n")
    case (Inl e)
    then show ?thesis using pins by simp
  next
    case (Inr ps)
    show ?thesis
    proof (cases "collect_pins up ps []")
      case (Inl e)
      then show ?thesis using pins Inr by simp
    next
      case out: (Inr pin_list)
      have "?Q (JObj (serialize_pin up p))"
        if "pin_pin_name p = Inr nv" "py_str nv \<notin> set [''execute'', ''then'', '''']" for p nv
      proof -
        have "''unknown'' \<notin> set [''execute'', ''then'', '''']" by simp
        then show ?thesis using fragment_name[OF that(1)] that(2) by blast
      qed
      then have "\<forall>f \<in> set pin_list. ?Q f"
        using collect_pins_invariant[OF out, of ?Q] by simp
      then show ?thesis using pins Inr out by simp
    qed
  qed
next
  fix pins
  assume a: "node_pins n = Inr pins \<and> (\<forall>p \<in> set pins. \<exists>nv. pin_pin_name p = Inr nv)"
  then have "collect_pins up pins [] =
     Inr (map (\<lambda>p. JObj (serialize_pin up p))
            (filter (\<lambda>p. py_str (projr (pin_pin_name p)) \<notin> set [''execute'', ''then'', ''''])
               pins))"
    using collect_pins_all[where pins = pins and acc = "[]" and up = up] by simp
  then show "dict_get info ''pins'' =
              (let kept = filter (\<lambda>p. py_str (projr (pin_pin_name p))
                                         \<notin> set [''execute'', ''then'', '''']) pins
               in if kept = [] then None
                  else Some (JList (map (\<lambda>p. JObj (serialize_pin up p)) kept)))"
    using serialize_node_pins[OF assms] a by (simp add: Let_def)
qed

text \<open>
  On \<open>ex_node\<close>, whose pins are \<open>execute\<close> (connected, with a default), \<open>Damage\<close> and
  \<open>ReturnValue\<close>.
\<close>

theorem pins_filtered_in_order_witness:
  "node_pins ex_node = Inr [ex_pin_execute, ex_pin, ex_pin_output]
   \<and> (\<exists>info. serialize_node ascii_upper ex_node = Inr info
        \<and> dict_get info ''pins''
            = Some (JList [JObj (serialize_pin ascii_upper ex_pin), JObj (serialize_pin ascii_upper ex_pin_output)]))"
proof -
  have p: "node_pins ex_node = Inr [ex_pin_execute, ex_pin, ex_pin_output]"
    by (simp add: ex_defs)
  have names: "\<forall>p \<in> set [ex_pin_execute, ex_pin, ex_pin_output]. \<exists>nv. pin_pin_name p = Inr nv"
    by (simp add: ex_defs)
  have k: "filter (\<lambda>p. py_str (projr (pin_pin_name p)) \<notin> set [''execute'', ''then'', ''''])
             [ex_pin_execute, ex_pin, ex_pin_output] = [ex_pin, ex_pin_output]"
    by (simp add: ex_defs)
  obtain info where s: "serialize_node ascii_upper ex_node = Inr info"
    by (simp add: serialize_node_def ex_defs)
  from pins_filtered_in_order[OF s] p names
  have "dict_get info ''pins'' =
          (let kept = filter (\<lambda>p. py_str (projr (pin_pin_name p))
                                     \<notin> set [''execute'', ''then'', ''''])
                        [ex_pin_execute, ex_pin, ex_pin_output]
           in if kept = [] then None
              else Some (JList (map (\<lambda>p. JObj (serialize_pin ascii_upper p)) kept)))"
    by blast
  then have "dict_get info ''pins''
            = Some (JList [JObj (serialize_pin ascii_upper ex_pin), JObj (serialize_pin ascii_upper ex_pin_output)])"
    unfolding k by simp
  with s p show ?thesis by blast
qed

text \<open>
  C6, on the code. The node \<open>ex_node_lost_pins\<close> has two pins: \<open>ReturnValue\<close>, which
  is well formed and whose name is none of \<open>execute\<close>, \<open>then\<close> and the empty string,
  and a pin whose name cannot be read. \<open>ReturnValue\<close> is not serialized: the fragment of
  the node has no \<open>pins\<close> field.
\<close>

theorem unfiltered_pin_not_serialized:
  "node_pins ex_node_lost_pins = Inr [ex_pin_output, ex_pin_nameless]
   \<and> pin_pin_name ex_pin_output = Inr (PyStr ''ReturnValue'')
   \<and> serialize_pin ascii_upper ex_pin_output
       = [(''name'', JStr ''ReturnValue''), (''direction'', JStr ''Output''),
          (''type'', JStr ''real'')]
   \<and> pin_pin_name ex_pin_nameless = Inl Exception
   \<and> serialize_node ascii_upper ex_node_lost_pins
       = Inr [(''class'', JStr ''K2Node_CallFunction''),
              (''name'', JStr ''K2Node_CallFunction_0''),
              (''function'', JStr ''ApplyDamage''),
              (''target_class'', JStr ''GameplayStatics'')]"
  by (simp add: node_defs pin_defs ex_defs)

subsection \<open>C5: a pin that cannot be read\<close>

lemma collect_pins_raise:
  "p \<in> set pins \<Longrightarrow> pin_pin_name p = Inl e \<Longrightarrow> \<exists>e'. collect_pins up pins acc = Inl e'"
proof (induction pins arbitrary: acc)
  case Nil
  then show ?case by simp
next
  case (Cons q pins)
  show ?case
  proof (cases "pin_pin_name q")
    case (Inl e')
    then show ?thesis by simp
  next
    case (Inr nv)
    then have "p \<in> set pins" using Cons.prems by auto
    from Cons.IH[OF this Cons.prems(2)] show ?thesis using Inr by simp
  qed
qed

text \<open>
  \<open>serialize_pin\<close> itself never raises, and returns the fallback for a pin whose
  direction or name cannot be read. But the loop of \<open>serialize_node\<close> reads the name of
  each pin before it calls \<open>serialize_pin\<close>: if the name of any one pin of the node
  cannot be read, the node has no \<open>pins\<close> field, whatever its other pins are.
\<close>

theorem pins_lost_if_name_raises:
  assumes "serialize_node up n = Inr info" and "node_pins n = Inr pins"
    and "p \<in> set pins" and "pin_pin_name p = Inl e"
  shows "dict_get info ''pins'' = None"
proof -
  obtain e' where "collect_pins up pins [] = Inl e'"
    using collect_pins_raise[OF assms(3,4)] by blast
  then show ?thesis using serialize_node_pins[OF assms(1)] assms(2) by simp
qed

text \<open>On \<open>ex_node_bad_pins\<close>, whose second pin has no readable name.\<close>

theorem pins_lost_if_name_raises_witness:
  "node_pins ex_node_bad_pins = Inr [ex_pin_no_direction, ex_pin_nameless]
   \<and> pin_pin_name ex_pin_nameless = Inl Exception
   \<and> (\<exists>info. serialize_node ascii_upper ex_node_bad_pins = Inr info \<and> dict_get info ''pins'' = None)"
proof -
  have p: "node_pins ex_node_bad_pins = Inr [ex_pin_no_direction, ex_pin_nameless]"
    by (simp add: ex_node_bad_pins_def ex_node_def)
  have m: "ex_pin_nameless \<in> set [ex_pin_no_direction, ex_pin_nameless]" by simp
  have e: "pin_pin_name ex_pin_nameless = Inl Exception"
    by (simp add: ex_pin_nameless_def ex_pin_def)
  obtain info where s: "serialize_node ascii_upper ex_node_bad_pins = Inr info"
    by (simp add: serialize_node_def ex_node_bad_pins_def ex_node_def named_class_def)
  from pins_lost_if_name_raises[OF s p m e] s p e show ?thesis by blast
qed

text \<open>
  C5, on the code. The node \<open>ex_node_bad_pins\<close> has two pins. The first has a readable
  name, \<open>Damage\<close>, which is not filtered, and an unreadable direction: its serialization
  fails entirely and \<open>serialize_pin\<close> gives the fallback for it. The second is a pin
  whose name cannot be read. The fragment of the node has no \<open>pins\<close> field: the slot of
  the first pin is lost, and the second has no fallback fragment either.
\<close>

theorem pins_field_lost_by_unreadable_name:
  "node_pins ex_node_bad_pins = Inr [ex_pin_no_direction, ex_pin_nameless]
   \<and> pin_pin_name ex_pin_no_direction = Inr (PyStr ''Damage'')
   \<and> serialize_pin ascii_upper ex_pin_no_direction = pin_fallback
   \<and> pin_pin_name ex_pin_nameless = Inl Exception
   \<and> serialize_pin ascii_upper ex_pin_nameless = pin_fallback
   \<and> serialize_node ascii_upper ex_node_bad_pins
       = Inr [(''class'', JStr ''K2Node_CallFunction''),
              (''name'', JStr ''K2Node_CallFunction_0''),
              (''function'', JStr ''ApplyDamage''),
              (''target_class'', JStr ''GameplayStatics'')]"
  by (simp add: node_defs pin_defs ex_defs)

subsection \<open>C4: a node that cannot be read\<close>

text \<open>
  The loop over the nodes of a graph has one \<open>try\<close> around it, not one per node: the
  first node whose class or name cannot be read ends the list.
\<close>

theorem serialize_nodes_truncated:
  assumes "\<forall>m \<in> set ns. \<exists>d. serialize_node up m = Inr d" and "serialize_node up n = Inl e"
  shows "serialize_nodes up (ns @ n # rest) acc
           = acc @ map (\<lambda>m. JObj (projr (serialize_node up m))) ns"
  using assms by (induction ns arbitrary: acc) auto

text \<open>On a list whose second node cannot be read.\<close>

theorem serialize_nodes_truncated_witness:
  "serialize_node ascii_upper ex_node_broken = Inl Exception
   \<and> serialize_nodes ascii_upper [ex_node_branch, ex_node_broken, ex_node] []
       = [JObj (projr (serialize_node ascii_upper ex_node_branch))]"
proof -
  have a: "\<forall>m \<in> set [ex_node_branch]. \<exists>d. serialize_node ascii_upper m = Inr d"
    by (simp add: serialize_node_def ex_node_branch_def named_class_def)
  have b: "serialize_node ascii_upper ex_node_broken = Inl Exception"
    by (simp add: serialize_node_def ex_node_broken_def ex_node_def)
  from serialize_nodes_truncated[OF a b, of "[ex_node]" "[]"] b show ?thesis by simp
qed

text \<open>
  C4, on the code. The graph \<open>ex_graph_broken_first\<close> has two nodes: the class of the
  first cannot be read, the second serializes. The fragment of the graph has an empty node
  list: the second node is dropped.
\<close>

theorem later_nodes_dropped:
  "graph_nodes ex_graph_broken_first = Inr [ex_node_broken, ex_node_branch]
   \<and> serialize_node ascii_upper ex_node_broken = Inl Exception
   \<and> serialize_node ascii_upper ex_node_branch
       = Inr [(''class'', JStr ''K2Node_IfThenElse''), (''name'', JStr ''K2Node_IfThenElse_0''),
              (''comment'', JStr ''check''),
              (''pins'', JList [JObj [(''name'', JStr ''ReturnValue''),
                                      (''direction'', JStr ''Output''),
                                      (''type'', JStr ''real'')]])]
   \<and> serialize_graph ascii_upper ex_graph_broken_first
       = Inr [(''name'', JStr ''EventGraph''), (''class'', JStr ''EdGraph''),
              (''nodes'', JList [])]"
  by (simp add: serialize_graph_def node_defs pin_defs ex_defs)

subsection \<open>Graphs and the asset document\<close>

lemma serialize_graph_Inr:
  assumes "serialize_graph up g = Inr d"
  shows "dict_get d ''nodes'' = Some (JList (serialize_nodes up (items (graph_nodes g)) []))"
    and "dict_get d ''graph_type'' = None"
proof -
  obtain nm where nm: "graph_get_name g = Inr nm"
    using assms by (cases "graph_get_name g") (simp_all add: serialize_graph_def)
  have n: "(case graph_nodes g of Inl _ \<Rightarrow> [] | Inr ns \<Rightarrow> if ns \<noteq> [] then serialize_nodes up ns [] else [])
           = serialize_nodes up (items (graph_nodes g)) []"
    by (simp add: items_def split: sum.splits)
  have d: "d = dict_set (case graph_get_class g of
                           Inl _ \<Rightarrow> [(''name'', JStr nm)]
                         | Inr c \<Rightarrow> (case class_get_name c of
                                       Inl _ \<Rightarrow> [(''name'', JStr nm)]
                                     | Inr cn \<Rightarrow> dict_set [(''name'', JStr nm)] ''class'' (JStr cn)))
                 ''nodes'' (JList (serialize_nodes up (items (graph_nodes g)) []))"
    using assms nm by (simp add: serialize_graph_def Let_def n[symmetric])
  show "dict_get d ''nodes'' = Some (JList (serialize_nodes up (items (graph_nodes g)) []))"
    by (subst d) (simp add: dict_get_dict_set)
  show "dict_get d ''graph_type'' = None"
    by (subst d) (simp add: dict_get_dict_set dict_get_def split: sum.splits)
qed

lemma serialize_graph_returns:
  "graph_get_name g = Inr nm \<Longrightarrow> \<exists>d. serialize_graph up g = Inr d"
  by (simp add: serialize_graph_def Let_def)

lemma collect_graphs_all:
  "\<forall>g \<in> set gs. \<exists>d. serialize_graph up g = Inr d \<Longrightarrow>
   collect_graphs up t gs acc =
     acc @ map (\<lambda>g. JObj (dict_set (projr (serialize_graph up g)) ''graph_type'' (JStr t))) gs"
  by (induction gs arbitrary: acc) auto

lemma add_graph_category_all:
  "\<forall>g \<in> set (items category). \<exists>d. serialize_graph up g = Inr d \<Longrightarrow>
   add_graph_category up category t acc =
     acc @ map (\<lambda>g. JObj (dict_set (projr (serialize_graph up g)) ''graph_type'' (JStr t)))
             (items category)"
  by (cases category) (simp_all add: add_graph_category_def items_def collect_graphs_all)

lemma dict_get_add_generated_class:
  "k \<noteq> ''generated_class'' \<Longrightarrow> k \<noteq> ''parent_class'' \<Longrightarrow>
   dict_get (add_generated_class bp r) k = dict_get r k"
  by (simp add: add_generated_class_def dict_get_dict_set Let_def split: sum.splits option.splits)

lemma dict_get_add_blueprint_type:
  "k \<noteq> ''blueprint_type'' \<Longrightarrow> dict_get (add_blueprint_type bp r) k = dict_get r k"
  by (simp add: add_blueprint_type_def dict_get_dict_set split: sum.splits)

lemma dict_get_add_interfaces:
  "k \<noteq> ''interfaces'' \<Longrightarrow> dict_get (add_interfaces bp r) k = dict_get r k"
  by (simp add: add_interfaces_def dict_get_dict_set split: sum.splits)

lemma dict_get_add_variables:
  "k \<noteq> ''variables'' \<Longrightarrow> dict_get (add_variables bp r) k = dict_get r k"
  by (simp add: add_variables_def dict_get_dict_set Let_def split: sum.splits option.splits)

lemma dict_get_add_components:
  "k \<noteq> ''components'' \<Longrightarrow> dict_get (add_components bp r) k = dict_get r k"
  by (simp add: add_components_def dict_get_dict_set Let_def)

text \<open>The document of a blueprint, when the call returns.\<close>

lemma blueprint_to_text_Inr:
  assumes "load_asset path = Some (Blueprint bp)"
    and "blueprint_to_text up load_asset path = Inr result"
  obtains nm pth where "bp_get_name bp = Inr nm" and "bp_get_path_name bp = Inr pth"
    and "result =
      (let r = add_components bp (add_variables bp (add_interfaces bp (add_blueprint_type bp
                 (add_generated_class bp [(''name'', JStr nm), (''path'', JStr pth)]))));
           graphs = add_graph_category up (bp_macro_graphs bp) ''Macro''
                      (add_graph_category up (bp_function_graphs bp) ''Function''
                         (add_graph_category up (bp_ubergraph_pages bp) ''EventGraph'' []))
       in if graphs \<noteq> [] then dict_set r ''graphs'' (JList graphs) else r)"
  using assms by (auto simp: blueprint_to_text_def Let_def split: sum.splits)

lemma dict_get_interfaces_block:
  assumes "dict_get r ''interfaces'' = None"
  shows "dict_get (add_interfaces bp r) ''interfaces'' =
           (case bp_implemented_interfaces bp of
              Inl _ \<Rightarrow> None
            | Inr ifs \<Rightarrow> if ifs = [] then None else Some (JList (collect_interfaces ifs [])))"
  using assms by (simp add: add_interfaces_def dict_get_dict_set split: sum.splits)

lemma collect_interfaces_eq:
  "collect_interfaces ifs names = names @ map JStr (List.map_filter interface_name ifs)"
  by (induction ifs arbitrary: names) (simp_all add: List.map_filter_simps split: option.splits)

lemma dict_get_asset_base:
  assumes "k \<notin> set [''generated_class'', ''parent_class'', ''blueprint_type'', ''interfaces'',
                      ''variables'', ''components'']"
  shows "dict_get (add_components bp (add_variables bp (add_interfaces bp (add_blueprint_type bp
                     (add_generated_class bp base))))) k = dict_get base k"
  using assms
  by (simp add: dict_get_add_components dict_get_add_variables dict_get_add_interfaces
        dict_get_add_blueprint_type dict_get_add_generated_class)

subsection \<open>C9: the graphs of the three categories\<close>

text \<open>
  What the three loops do. For a blueprint whose document is \<open>result\<close>, and whose graphs
  all have a readable name (so that each has a fragment): the \<open>graphs\<close> field is the
  list of the fragments of the event graphs, each with \<open>graph_type\<close> \<open>EventGraph\<close>,
  then of the function graphs with \<open>Function\<close>, then of the macro graphs with
  \<open>Macro\<close>, and it is missing when that list is empty. A category whose array cannot be
  read has no graphs. The fragment of every graph, stamped or not, has a \<open>nodes\<close> field,
  which is the empty list when the node array is empty or cannot be read.
\<close>

theorem graphs_in_category_order:
  assumes "load_asset path = Some (Blueprint bp)"
    and "blueprint_to_text up load_asset path = Inr result"
    and "\<forall>g \<in> set (items (bp_ubergraph_pages bp) @ items (bp_function_graphs bp)
                       @ items (bp_macro_graphs bp)). \<exists>nm. graph_get_name g = Inr nm"
  shows "dict_get result ''graphs'' =
           (let stamp = (\<lambda>t g. JObj (dict_set (projr (serialize_graph up g)) ''graph_type'' (JStr t)));
                graphs = map (stamp ''EventGraph'') (items (bp_ubergraph_pages bp))
                         @ map (stamp ''Function'') (items (bp_function_graphs bp))
                         @ map (stamp ''Macro'') (items (bp_macro_graphs bp))
            in if graphs = [] then None else Some (JList graphs))
       \<and> (\<forall>g d t. serialize_graph up g = Inr d \<longrightarrow>
             (\<exists>ns. dict_get (dict_set d ''graph_type'' (JStr t)) ''nodes'' = Some (JList ns))
             \<and> dict_get (dict_set d ''graph_type'' (JStr t)) ''graph_type'' = Some (JStr t)
             \<and> (graph_nodes g = Inr [] \<or> (\<exists>e. graph_nodes g = Inl e) \<longrightarrow>
                  dict_get d ''nodes'' = Some (JList [])
                  \<and> dict_get (dict_set d ''graph_type'' (JStr t)) ''nodes'' = Some (JList [])))"
proof (intro conjI allI impI)
  let ?stamp = "\<lambda>t g. JObj (dict_set (projr (serialize_graph up g)) ''graph_type'' (JStr t))"
  obtain nm pth where result: "result =
      (let r = add_components bp (add_variables bp (add_interfaces bp (add_blueprint_type bp
                 (add_generated_class bp [(''name'', JStr nm), (''path'', JStr pth)]))));
           graphs = add_graph_category up (bp_macro_graphs bp) ''Macro''
                      (add_graph_category up (bp_function_graphs bp) ''Function''
                         (add_graph_category up (bp_ubergraph_pages bp) ''EventGraph'' []))
       in if graphs \<noteq> [] then dict_set r ''graphs'' (JList graphs) else r)"
    using assms(1,2) by (rule blueprint_to_text_Inr)
  have ok: "\<exists>d. serialize_graph up g = Inr d"
    if "g \<in> set (items (bp_ubergraph_pages bp)) \<or> g \<in> set (items (bp_function_graphs bp))
        \<or> g \<in> set (items (bp_macro_graphs bp))" for g
    using that assms(3) serialize_graph_returns[of g] by auto
  have e: "add_graph_category up (bp_ubergraph_pages bp) ''EventGraph'' acc
             = acc @ map (?stamp ''EventGraph'') (items (bp_ubergraph_pages bp))" for acc
    using ok by (intro add_graph_category_all) blast
  have f: "add_graph_category up (bp_function_graphs bp) ''Function'' acc
             = acc @ map (?stamp ''Function'') (items (bp_function_graphs bp))" for acc
    using ok by (intro add_graph_category_all) blast
  have m: "add_graph_category up (bp_macro_graphs bp) ''Macro'' acc
             = acc @ map (?stamp ''Macro'') (items (bp_macro_graphs bp))" for acc
    using ok by (intro add_graph_category_all) blast
  have none: "dict_get (add_components bp (add_variables bp (add_interfaces bp
                 (add_blueprint_type bp (add_generated_class bp
                    [(''name'', JStr nm), (''path'', JStr pth)]))))) ''graphs'' = None"
    by (subst dict_get_asset_base) (simp_all add: dict_get_def)
  show "dict_get result ''graphs'' =
           (let stamp = ?stamp;
                graphs = map (stamp ''EventGraph'') (items (bp_ubergraph_pages bp))
                         @ map (stamp ''Function'') (items (bp_function_graphs bp))
                         @ map (stamp ''Macro'') (items (bp_macro_graphs bp))
            in if graphs = [] then None else Some (JList graphs))"
    unfolding result e f m Let_def using none by (simp add: dict_get_dict_set)
next
  fix g d t
  assume s: "serialize_graph up g = Inr d"
  show "\<exists>ns. dict_get (dict_set d ''graph_type'' (JStr t)) ''nodes'' = Some (JList ns)"
    using serialize_graph_Inr(1)[OF s] by (simp add: dict_get_dict_set)
  show "dict_get (dict_set d ''graph_type'' (JStr t)) ''graph_type'' = Some (JStr t)"
    by (simp add: dict_get_dict_set)
  assume "graph_nodes g = Inr [] \<or> (\<exists>e. graph_nodes g = Inl e)"
  then have "items (graph_nodes g) = []" by (auto simp: items_def)
  then have n: "dict_get d ''nodes'' = Some (JList [])"
    using serialize_graph_Inr(1)[OF s] by simp
  then show "dict_get d ''nodes'' = Some (JList [])" .
  from n show "dict_get (dict_set d ''graph_type'' (JStr t)) ''nodes'' = Some (JList [])"
    by (simp add: dict_get_dict_set)
qed

text \<open>
  On \<open>ex_blueprint_three\<close>: an empty event graph, a function graph whose class and nodes
  cannot be read, and a macro graph with one node.
\<close>

theorem graphs_in_category_order_witness:
  "ex_load_asset ''/Game/BP_Three'' = Some (Blueprint ex_blueprint_three)
   \<and> (\<exists>result. blueprint_to_text ascii_upper ex_load_asset ''/Game/BP_Three'' = Inr result
        \<and> dict_get result ''graphs'' =
            Some (JList
              [JObj [(''name'', JStr ''EventGraph''), (''class'', JStr ''EdGraph''),
                     (''nodes'', JList []), (''graph_type'', JStr ''EventGraph'')],
               JObj [(''name'', JStr ''ComputeDamage''),
                     (''nodes'', JList []), (''graph_type'', JStr ''Function'')],
               JObj [(''name'', JStr ''Retry''), (''class'', JStr ''EdGraph''),
                     (''nodes'', JList [JObj (projr (serialize_node ascii_upper ex_node_branch))]),
                     (''graph_type'', JStr ''Macro'')]]))"
proof -
  have l: "ex_load_asset ''/Game/BP_Three'' = Some (Blueprint ex_blueprint_three)"
    by (simp add: ex_load_asset_def)
  obtain result where r: "blueprint_to_text ascii_upper ex_load_asset ''/Game/BP_Three'' = Inr result"
    by (simp add: blueprint_to_text_def l ex_blueprint_three_def ex_blueprint_def Let_def)
  have i: "items (bp_ubergraph_pages ex_blueprint_three) = [ex_graph_empty]"
    "items (bp_function_graphs ex_blueprint_three) = [ex_graph_function]"
    "items (bp_macro_graphs ex_blueprint_three) = [ex_graph_macro]"
    by (simp_all add: items_def ex_blueprint_three_def ex_blueprint_def)
  have names: "\<forall>g \<in> set (items (bp_ubergraph_pages ex_blueprint_three)
                   @ items (bp_function_graphs ex_blueprint_three)
                   @ items (bp_macro_graphs ex_blueprint_three)). \<exists>nm. graph_get_name g = Inr nm"
    unfolding i by (simp add: ex_graph_empty_def ex_graph_function_def ex_graph_macro_def)
  have b: "serialize_node ascii_upper ex_node_branch = Inr (projr (serialize_node ascii_upper ex_node_branch))"
    by (simp add: serialize_node_def ex_node_branch_def named_class_def)
  have g: "serialize_graph ascii_upper ex_graph_empty
             = Inr [(''name'', JStr ''EventGraph''), (''class'', JStr ''EdGraph''),
                    (''nodes'', JList [])]"
    "serialize_graph ascii_upper ex_graph_function
             = Inr [(''name'', JStr ''ComputeDamage''), (''nodes'', JList [])]"
    "serialize_graph ascii_upper ex_graph_macro
             = Inr [(''name'', JStr ''Retry''), (''class'', JStr ''EdGraph''),
                    (''nodes'', JList [JObj (projr (serialize_node ascii_upper ex_node_branch))])]"
    by (simp_all add: serialize_graph_def ex_graph_empty_def ex_graph_function_def
          ex_graph_macro_def named_class_def Let_def, subst b, simp)
  from graphs_in_category_order[OF l r names]
  have "dict_get result ''graphs'' =
            Some (JList
              [JObj [(''name'', JStr ''EventGraph''), (''class'', JStr ''EdGraph''),
                     (''nodes'', JList []), (''graph_type'', JStr ''EventGraph'')],
               JObj [(''name'', JStr ''ComputeDamage''),
                     (''nodes'', JList []), (''graph_type'', JStr ''Function'')],
               JObj [(''name'', JStr ''Retry''), (''class'', JStr ''EdGraph''),
                     (''nodes'', JList [JObj (projr (serialize_node ascii_upper ex_node_branch))]),
                     (''graph_type'', JStr ''Macro'')]])"
    unfolding i by (simp add: g Let_def)
  with l r show ?thesis by blast
qed

text \<open>
  C9, on the code. The blueprint \<open>ex_blueprint_cut\<close> has two event graphs: the name of
  the first cannot be read, the second is an empty graph that serializes. The document has
  no \<open>graphs\<close> field: the raise of the first graph leaves the loop over the event
  graphs, and the second is never serialized.
\<close>

theorem graphs_cut_at_unnamed_graph:
  "ex_load_asset ''/Game/BP_Cut'' = Some (Blueprint ex_blueprint_cut)
   \<and> bp_ubergraph_pages ex_blueprint_cut = Inr [ex_graph_unnamed, ex_graph_empty]
   \<and> serialize_graph ascii_upper ex_graph_unnamed = Inl Exception
   \<and> serialize_graph ascii_upper ex_graph_empty
       = Inr [(''name'', JStr ''EventGraph''), (''class'', JStr ''EdGraph''),
              (''nodes'', JList [])]
   \<and> blueprint_to_text ascii_upper ex_load_asset ''/Game/BP_Cut''
       = Inr [(''name'', JStr ''BP_Min''), (''path'', JStr ''/Game/BP_Min.BP_Min'')]"
proof -
  have u: "serialize_graph ascii_upper ex_graph_unnamed = Inl Exception"
    by (simp add: serialize_graph_def ex_graph_unnamed_def ex_graph_empty_def)
  have g: "serialize_graph ascii_upper ex_graph_empty
             = Inr [(''name'', JStr ''EventGraph''), (''class'', JStr ''EdGraph''),
                    (''nodes'', JList [])]"
    by (simp add: serialize_graph_def ex_graph_empty_def named_class_def)
  have r: "blueprint_to_text ascii_upper ex_load_asset ''/Game/BP_Cut''
       = Inr [(''name'', JStr ''BP_Min''), (''path'', JStr ''/Game/BP_Min.BP_Min'')]"
    by (simp add: blueprint_to_text_def ex_load_asset_def ex_blueprint_cut_def ex_blueprint_def
          add_generated_class_def add_blueprint_type_def add_interfaces_def add_variables_def
          add_components_def get_components_def add_graph_category_def u)
  show ?thesis
    using u g r by (simp add: ex_load_asset_def ex_blueprint_cut_def ex_blueprint_def)
qed

subsection \<open>C1: the two error documents\<close>




subsection \<open>C3: the interfaces field\<close>

text \<open>
  \<open>result["interfaces"]\<close> is assigned the empty list before the loop, so the field
  depends on the records, not on the names resolved: in the document of a blueprint it is
  missing exactly when the read of the interface records raises or gives no record. When
  there are records it lists, in order, the class names of the records that resolve, and
  it is the empty list when none does.
\<close>

theorem interfaces_field:
  assumes "load_asset path = Some (Blueprint bp)"
    and "blueprint_to_text up load_asset path = Inr result"
  shows "dict_get result ''interfaces'' =
           (case bp_implemented_interfaces bp of
              Inl _ \<Rightarrow> None
            | Inr ifs \<Rightarrow>
                if ifs = [] then None
                else Some (JList (map JStr (List.map_filter interface_name ifs))))"
proof -
  obtain nm pth where result: "result =
      (let r = add_components bp (add_variables bp (add_interfaces bp (add_blueprint_type bp
                 (add_generated_class bp [(''name'', JStr nm), (''path'', JStr pth)]))));
           graphs = add_graph_category up (bp_macro_graphs bp) ''Macro''
                      (add_graph_category up (bp_function_graphs bp) ''Function''
                         (add_graph_category up (bp_ubergraph_pages bp) ''EventGraph'' []))
       in if graphs \<noteq> [] then dict_set r ''graphs'' (JList graphs) else r)"
    using assms by (rule blueprint_to_text_Inr)
  let ?r0 = "add_blueprint_type bp (add_generated_class bp
               [(''name'', JStr nm), (''path'', JStr pth)])"
  have "dict_get ?r0 ''interfaces'' = None"
    by (simp add: dict_get_add_blueprint_type dict_get_add_generated_class) (simp add: dict_get_def)
  then have "dict_get (add_interfaces bp ?r0) ''interfaces'' =
           (case bp_implemented_interfaces bp of
              Inl _ \<Rightarrow> None
            | Inr ifs \<Rightarrow> if ifs = [] then None else Some (JList (collect_interfaces ifs [])))"
    by (rule dict_get_interfaces_block)
  then show ?thesis
    unfolding result Let_def
    by (simp add: dict_get_dict_set dict_get_add_components dict_get_add_variables
          collect_interfaces_eq split: sum.splits)
qed

text \<open>
  On \<open>ex_blueprint_interfaces\<close>, with one record that resolves and one whose class is
  null, and on the minimal blueprint, which has no record.
\<close>

theorem interfaces_field_witness:
  "ex_load_asset ''/Game/BP_Ifaces'' = Some (Blueprint ex_blueprint_interfaces)
   \<and> ex_load_asset ''/Game/BP_Min'' = Some (Blueprint ex_blueprint)
   \<and> (\<exists>result. blueprint_to_text ascii_upper ex_load_asset ''/Game/BP_Ifaces'' = Inr result
        \<and> dict_get result ''interfaces'' = Some (JList [JStr ''BPI_Damageable'']))
   \<and> (\<exists>result. blueprint_to_text ascii_upper ex_load_asset ''/Game/BP_Min'' = Inr result
        \<and> dict_get result ''interfaces'' = None)"
proof -
  have l: "ex_load_asset ''/Game/BP_Ifaces'' = Some (Blueprint ex_blueprint_interfaces)"
    and l': "ex_load_asset ''/Game/BP_Min'' = Some (Blueprint ex_blueprint)"
    by (simp_all add: ex_load_asset_def)
  obtain result where r: "blueprint_to_text ascii_upper ex_load_asset ''/Game/BP_Ifaces'' = Inr result"
    by (simp add: blueprint_to_text_def l ex_blueprint_interfaces_def ex_blueprint_def Let_def)
  obtain result' where r': "blueprint_to_text ascii_upper ex_load_asset ''/Game/BP_Min'' = Inr result'"
    by (simp add: blueprint_to_text_def l' ex_blueprint_def Let_def)
  have "dict_get result ''interfaces'' = Some (JList [JStr ''BPI_Damageable''])"
    using interfaces_field[OF l r]
    by (simp add: ex_blueprint_interfaces_def ex_blueprint_def List.map_filter_simps
          interface_name_def named_class_def)
  moreover have "dict_get result' ''interfaces'' = None"
    using interfaces_field[OF l' r'] by (simp add: ex_blueprint_def)
  ultimately show ?thesis using l l' r r' by blast
qed

text \<open>
  C3, on the code. The blueprint \<open>ex_blueprint_lost_interface\<close> has two interface
  records and neither resolves: the list of resolved names is empty, and the document has
  the field \<open>interfaces\<close> all the same, with the empty list.
\<close>

theorem empty_interfaces_emitted:
  "bp_implemented_interfaces ex_blueprint_lost_interface
     = Inr [\<lparr>iface_interface = Inl Exception\<rparr>, \<lparr>iface_interface = Inr None\<rparr>]
   \<and> interface_name \<lparr>iface_interface = Inl Exception\<rparr> = None
   \<and> interface_name \<lparr>iface_interface = Inr None\<rparr> = None
   \<and> blueprint_to_text ascii_upper ex_load_asset ''/Game/BP_Lost''
     = Inr [(''name'', JStr ''BP_Min''), (''path'', JStr ''/Game/BP_Min.BP_Min''),
            (''interfaces'', JList []),
            (''graphs'', JList [JObj [(''name'', JStr ''EventGraph''),
                                      (''class'', JStr ''EdGraph''),
                                      (''nodes'', JList []),
                                      (''graph_type'', JStr ''EventGraph'')]])]"
proof -
  have g: "serialize_graph ascii_upper ex_graph_empty
             = Inr [(''name'', JStr ''EventGraph''), (''class'', JStr ''EdGraph''),
                    (''nodes'', JList [])]"
    by (simp add: serialize_graph_def ex_graph_empty_def named_class_def)
  show ?thesis
    by (simp add: blueprint_to_text_def ex_load_asset_def ex_blueprint_lost_interface_def
          ex_blueprint_def add_generated_class_def add_blueprint_type_def add_interfaces_def
          interface_name_def add_variables_def add_components_def get_components_def
          add_graph_category_def g)
qed

end
